theory Spec2Isabelle
  imports Complex_Main "HOL-Library.AList" "HOL-Library.Sublist"
begin

section \<open>JSON values and JavaScript objects\<close>

text \<open>
  Request bodies, stored documents and response bodies are JavaScript objects. An object is
  an association list in insertion order; reading a property that is not there gives
  \<open>undefined\<close>, which is \<open>None\<close> here. Numbers are the integer-valued ones.
\<close>

datatype json = JNull | JBool bool | JNum int | JStr string | JArr "json list"
  | JObj "(string \<times> json) list"

type_synonym obj = "(string \<times> json) list"

text \<open>JavaScript truthiness, as \<open>if (x)\<close>, \<open>!x\<close> and \<open>x || y\<close> read it.\<close>

fun truthy :: "json option \<Rightarrow> bool" where
  "truthy None = False"
| "truthy (Some JNull) = False"
| "truthy (Some (JBool b)) = b"
| "truthy (Some (JNum n)) = (n \<noteq> 0)"
| "truthy (Some (JStr s)) = (s \<noteq> [])"
| "truthy (Some (JArr xs)) = True"
| "truthy (Some (JObj kvs)) = True"

text \<open>\<open>x || d\<close>\<close>

fun or_else :: "json option \<Rightarrow> json \<Rightarrow> json" where
  "or_else None d = d"
| "or_else (Some v) d = (if truthy (Some v) then v else d)"

text \<open>
  An object literal \<open>{k1: e1, k2: e2, ...}\<close> as \<open>res.json\<close> serialises it: a property
  whose value is \<open>undefined\<close> is left out.
\<close>

fun literal :: "(string \<times> json option) list \<Rightarrow> obj" where
  "literal [] = []"
| "literal ((k, None) # kvs) = literal kvs"
| "literal ((k, Some v) # kvs) = (k, v) # literal kvs"

text \<open>\<open>Object.assign(target, source)\<close>: every property of the source is set on the target.\<close>

definition assign :: "obj \<Rightarrow> obj \<Rightarrow> obj" where
  "assign target source = fold (\<lambda>(k, v) t. AList.update k v t) source target"

text \<open>JavaScript numbers that arithmetic on integers can produce.\<close>

datatype jsnum = Num int | PosInfinity | NaN

text \<open>
  A JavaScript number is a double: an integer below \<open>2^53\<close> in magnitude is one, and a
  larger integer is one when it is a 53-bit mantissa times a power of two. The result of
  an arithmetic operation is the exact result rounded to the nearest double, a tie going
  to the even mantissa. \<open>round_double\<close> is that rounding, for an integer below the
  overflow threshold; \<open>shifts a\<close> is the exponent of the power of two.
\<close>

fun shifts :: "nat \<Rightarrow> nat" where
  "shifts a = (if a < 2 ^ 53 then 0 else Suc (shifts (a div 2)))"

declare shifts.simps [simp del]

definition round_double :: "int \<Rightarrow> int" where
  "round_double x =
     (let a = nat \<bar>x\<bar>; e = shifts a; q = 2 ^ e; m = a div q; r = a mod q
      in if e = 0 then x
         else sgn x * int ((if q < 2 * r \<or> (2 * r = q \<and> odd m) then m + 1 else m) * q))"

section \<open>The document store and the other collaborators\<close>

text \<open>
  The store holds two collections of documents. The query language of the store is the
  part of it the handlers use: equality on a path, a case-insensitive regular expression,
  a numeric range and a full-text condition; a filter is the conjunction of its conditions.
\<close>

record db =
  users :: "obj list"
  properties :: "obj list"

datatype collection = Users | Properties

datatype cond =
    Eq string json
  | RegexI string string
  | Range string "jsnum option" "jsnum option"
  | Text string

datatype store_call =
    Find collection "cond list"
  | CountDocuments collection "cond list"
  | FindById collection string
  | FindOne collection string json
  | Populate obj
  | Save collection obj

datatype failure = DuplicateKey | StoreError

text \<open>
  Everything a handler gets from outside the three source files is a field of the
  environment: the clock, the identifier of a new document, the token signer, the
  password hashing and verification of the User model, the defaults the two schemas
  give a new document, the User schema's serialisation of a document (\<open>toJSON\<close>), which
  awaited store call is rejected (every handler catches that and answers 500), the store's
  regular expression engine outside the modelled fragment, its full-text matching, its
  ordering of a result set, whether each mail is delivered (\<open>False\<close>: the call throws), and
  what the search does with a page or a limit that does not read as an integer (the
  double arithmetic on fractions, \<open>NaN\<close> and the infinities is not modelled): the skip
  and the limit the store applies (\<open>None\<close>: it rejects them), and the \<open>totalPages\<close>,
  \<open>hasNext\<close> and \<open>hasPrev\<close> of the response.
\<close>

record env =
  now :: int
  new_id :: "obj list \<Rightarrow> string"
  jwt_sign :: "obj \<Rightarrow> string"
  hash_password :: "string \<Rightarrow> string"
  compare_password :: "string \<Rightarrow> obj \<Rightarrow> bool"
  user_defaults :: obj
  property_defaults :: obj
  user_toJSON :: "obj \<Rightarrow> obj"
  failure :: "store_call \<Rightarrow> failure option"
  regex_ext :: "string \<Rightarrow> string \<Rightarrow> bool"
  text_match :: "string \<Rightarrow> obj \<Rightarrow> bool"
  sort_docs :: "string \<Rightarrow> int \<Rightarrow> obj list \<Rightarrow> obj list"
  sendPropertyListedEmail :: "obj \<Rightarrow> bool"
  sendAdminNotification :: "obj \<Rightarrow> bool"
  paging_ext :: "string option \<Rightarrow> string option \<Rightarrow> (nat \<times> int) option"
  pagination_ext :: "string option \<Rightarrow> string option \<Rightarrow> nat \<Rightarrow> json \<times> bool \<times> bool"

definition rejected :: "env \<Rightarrow> store_call \<Rightarrow> bool" where
  "rejected E c = (failure E c \<noteq> None)"

definition findById :: "obj list \<Rightarrow> string \<Rightarrow> obj option" where
  "findById ds i = find (\<lambda>d. map_of d ''_id'' = Some (JStr i)) ds"

definition findOne :: "obj list \<Rightarrow> string \<Rightarrow> json \<Rightarrow> obj option" where
  "findOne ds k v = find (\<lambda>d. map_of d k = Some v) ds"

text \<open>\<open>doc.save()\<close> of a loaded document writes it back in the place of the stored one.\<close>

fun replace_doc :: "json option \<Rightarrow> obj \<Rightarrow> obj list \<Rightarrow> obj list" where
  "replace_doc i d' [] = []"
| "replace_doc i d' (d # ds) =
     (if map_of d ''_id'' = i then d' # ds else d # replace_doc i d' ds)"

text \<open>
  \<open>new Model(data)\<close>: the document has the data's properties, and an \<open>_id\<close> and the
  schema's defaults for the paths the data leaves out. Casting of the values to the
  schema's types is not part of the model: a document holds the values it was given.
\<close>

definition new_document :: "string \<Rightarrow> obj \<Rightarrow> obj \<Rightarrow> obj" where
  "new_document i defaults d =
     fold (\<lambda>(k, v) acc. if map_of acc k = None then acc @ [(k, v)] else acc)
       ((''_id'', JStr i) # defaults) d"

text \<open>\<open>select('name email phone')\<close>: the named paths and \<open>_id\<close>.\<close>

definition project :: "string list \<Rightarrow> obj \<Rightarrow> obj" where
  "project ks d = filter (\<lambda>(k, v). k \<in> set ks) d"

text \<open>
  \<open>populate('owner', 'name email phone')\<close>: the owner reference is replaced by the
  projection of the user it names, or by \<open>null\<close> when no user has that id.
\<close>

definition populate_owner :: "obj list \<Rightarrow> obj \<Rightarrow> obj" where
  "populate_owner us d =
     (case map_of d ''owner'' of
        None \<Rightarrow> d
      | Some r \<Rightarrow>
          AList.update ''owner''
            (case find (\<lambda>u. map_of u ''_id'' = Some r) us of
               None \<Rightarrow> JNull
             | Some u \<Rightarrow> JObj (project [''_id'', ''name'', ''email'', ''phone''] u)) d)"

section \<open>Responses\<close>

text \<open>The envelope \<open>{success, message, data}\<close> with the HTTP status.\<close>

record response =
  status :: nat
  success :: bool
  message :: "string option"
  data :: "json option"

definition failed :: "nat \<Rightarrow> string \<Rightarrow> response" where
  "failed c m = \<lparr>status = c, success = False, message = Some m, data = None\<rparr>"

definition succeeded :: "nat \<Rightarrow> string option \<Rightarrow> json \<Rightarrow> response" where
  "succeeded c m d = \<lparr>status = c, success = True, message = m, data = Some d\<rparr>"

section \<open>Listing service (routes/properties.js)\<close>

subsection \<open>GET /api/properties/:id\<close>

text \<open>
  \<open>property.views += 1\<close> on the Number path \<open>views\<close>: a number is incremented in double
  arithmetic (the sum is rounded, so from \<open>2^53\<close> on the counter may stay as it is),
  \<open>null\<close> counts as 0, and \<open>undefined + 1\<close> is \<open>NaN\<close>, which the path cannot store
  (\<open>None\<close>: the save fails). A Number path holds no other kind of value.
\<close>

fun plus_one :: "json option \<Rightarrow> json option" where
  "plus_one (Some (JNum n)) = Some (JNum (round_double (n + 1)))"
| "plus_one (Some JNull) = Some (JNum 1)"
| "plus_one _ = None"

definition getProperty :: "env \<Rightarrow> db \<Rightarrow> string \<Rightarrow> db \<times> response" where
  "getProperty E s pid =
     (if rejected E (FindById Properties pid)
      then (s, failed 500 ''Server error while fetching property'')
      else
        case findById (properties s) pid of
          None \<Rightarrow> (s, failed 404 ''Property not found'')
        | Some property \<Rightarrow>
            if \<not> truthy (map_of property ''isApproved'') \<or> \<not> truthy (map_of property ''isActive'')
            then (s, failed 404 ''Property not available'')
            else
              (case plus_one (map_of property ''views'') of
                 None \<Rightarrow> (s, failed 500 ''Server error while fetching property'')
               | Some v \<Rightarrow>
                   let property' = AList.update ''views'' v property in
                   if rejected E (Save Properties property')
                   then (s, failed 500 ''Server error while fetching property'')
                   else
                     (s\<lparr>properties := replace_doc (Some (JStr pid)) property' (properties s)\<rparr>,
                      succeeded 200 None
                        (JObj [(''property'', JObj (populate_owner (users s) property'))]))))"

subsection \<open>POST /api/properties\<close>

definition placeholder :: string where
  "placeholder =
     ''https://images.pexels.com/photos/106399/pexels-photo-106399.jpeg?auto=compress&cs=tinysrgb&w=800''"

text \<open>
  \<open>{...req.body, owner: req.user._id, isApproved: true, isActive: true,
  images: [req.body.image || placeholder]}\<close>
\<close>

definition propertyData :: "json \<Rightarrow> obj \<Rightarrow> obj" where
  "propertyData uid body =
     AList.update ''images'' (JArr [or_else (map_of body ''image'') (JStr placeholder)])
       (AList.update ''isActive'' (JBool True)
         (AList.update ''isApproved'' (JBool True)
           (AList.update ''owner'' uid body)))"

text \<open>
  The two mails of the \<open>try\<close> block: the confirmation goes out only when the property has
  an owner email, and a confirmation that throws skips the admin notification.
\<close>

definition mails_delivered :: "env \<Rightarrow> obj \<Rightarrow> bool" where
  "mails_delivered E property =
     (if truthy (map_of property ''ownerEmail'')
      then sendPropertyListedEmail E property \<and> sendAdminNotification E property
      else sendAdminNotification E property)"

text \<open>
  The handler after \<open>adminAuth\<close> (which supplies \<open>req.user._id\<close>) and \<open>validateProperty\<close>
  have let the request through. The third component is what the handler writes with
  \<open>console.error\<close>. A save is rejected by the store when the \<open>_id\<close> is already taken.
\<close>

definition createProperty :: "env \<Rightarrow> db \<Rightarrow> json \<Rightarrow> obj \<Rightarrow> db \<times> response \<times> string list" where
  "createProperty E s uid body =
     (let property = new_document (new_id E (properties s)) (property_defaults E)
                       (propertyData uid body)
      in
        if rejected E (Save Properties property)
           \<or> list_ex (\<lambda>d. map_of d ''_id'' = map_of property ''_id'') (properties s)
        then (s, failed 500 ''Server error while creating property listing'',
              [''Create property error:''])
        else
          let s' = s\<lparr>properties := properties s @ [property]\<rparr> in
          if rejected E (Populate property)
          then (s', failed 500 ''Server error while creating property listing'',
                [''Create property error:''])
          else
            let populated = populate_owner (users s) property in
            (s',
             succeeded 201 (Some ''Property listed successfully and is now live on the website!'')
               (JObj [(''property'', JObj populated)]),
             if mails_delivered E populated then [] else [''Email notification error:'']))"

subsection \<open>PUT /api/properties/:id\<close>

text \<open>The store does not let a save change the \<open>_id\<close> of a document.\<close>

definition updateProperty :: "env \<Rightarrow> db \<Rightarrow> string \<Rightarrow> obj \<Rightarrow> db \<times> response" where
  "updateProperty E s pid body =
     (if rejected E (FindById Properties pid)
      then (s, failed 500 ''Server error while updating property'')
      else
        case findById (properties s) pid of
          None \<Rightarrow> (s, failed 404 ''Property not found'')
        | Some property \<Rightarrow>
            let property' = AList.update ''isApproved'' (JBool True) (assign property body) in
            if rejected E (Save Properties property')
               \<or> map_of property' ''_id'' \<noteq> Some (JStr pid)
            then (s, failed 500 ''Server error while updating property'')
            else
              let s' = s\<lparr>properties := replace_doc (Some (JStr pid)) property' (properties s)\<rparr> in
              if rejected E (Populate property')
              then (s', failed 500 ''Server error while updating property'')
              else
                (s', succeeded 200 (Some ''Property updated successfully!'')
                       (JObj [(''property'', JObj (populate_owner (users s) property'))])))"

section \<open>Auth service (routes/auth.js)\<close>

text \<open>
  The handlers take the fields they destructure from \<open>req.body\<close> after the validation
  middleware has let the request through: \<open>name\<close>, \<open>phone\<close> and \<open>password\<close> are strings
  and \<open>email\<close> may be missing. The welcome mail of the registration has its own
  \<open>try\<close>/\<open>catch\<close> and changes neither the store nor the response.
\<close>

definition truthy_str :: "string option \<Rightarrow> bool" where
  "truthy_str x = (case x of None \<Rightarrow> False | Some s \<Rightarrow> s \<noteq> [])"

subsection \<open>POST /api/auth/register\<close>

text \<open>
  Modelled from the spec: the save hook of the User model (models/User.js is not among the
  sources) stores a one-way hash of the password; the hash function is a parameter. The
  document is \<open>new User({name, email: email || null, phone, password})\<close>.
\<close>

definition new_user :: "env \<Rightarrow> db \<Rightarrow> string \<Rightarrow> string option \<Rightarrow> string \<Rightarrow> string \<Rightarrow> obj" where
  "new_user E s name email phone password =
     new_document (new_id E (users s)) (user_defaults E)
       [(''name'', JStr name),
        (''email'', (case email of None \<Rightarrow> JNull | Some e \<Rightarrow> if e \<noteq> [] then JStr e else JNull)),
        (''phone'', JStr phone),
        (''password'', JStr (hash_password E password))]"

definition register_saved :: "env \<Rightarrow> db \<Rightarrow> obj \<Rightarrow> db \<times> response" where
  "register_saved E s user =
     (s\<lparr>users := users s @ [user]\<rparr>,
      succeeded 201 (Some ''Registration successful! Welcome to Vasai Properties.'')
        (JObj [(''user'', JObj (literal
                  [(''id'', map_of user ''_id''),
                   (''name'', map_of user ''name''),
                   (''email'', Some (or_else (map_of user ''email'') JNull)),
                   (''phone'', map_of user ''phone''),
                   (''createdAt'', map_of user ''createdAt'')])),
               (''token'', JStr (jwt_sign E (literal [(''userId'', map_of user ''_id'')])))]))"

definition register_save :: "env \<Rightarrow> db \<Rightarrow> obj \<Rightarrow> db \<times> response" where
  "register_save E s user =
     (if list_ex (\<lambda>u. map_of u ''_id'' = map_of user ''_id'') (users s)
      then (s, failed 400 ''Phone number or email is already registered'')
      else
        case failure E (Save Users user) of
          Some DuplicateKey \<Rightarrow> (s, failed 400 ''Phone number or email is already registered'')
        | Some StoreError \<Rightarrow> (s, failed 500 ''Server error during registration'')
        | None \<Rightarrow> register_saved E s user)"

definition register :: "env \<Rightarrow> db \<Rightarrow> string \<Rightarrow> string option \<Rightarrow> string \<Rightarrow> string \<Rightarrow> db \<times> response" where
  "register E s name email phone password =
     (if rejected E (FindOne Users ''phone'' (JStr phone))
      then (s, failed 500 ''Server error during registration'')
      else
        case findOne (users s) ''phone'' (JStr phone) of
          Some existingUser \<Rightarrow> (s, failed 400 ''User already exists with this phone number'')
        | None \<Rightarrow>
            (case (if truthy_str email then email else None) of
               None \<Rightarrow> register_save E s (new_user E s name email phone password)
             | Some e \<Rightarrow>
                 if rejected E (FindOne Users ''email'' (JStr e))
                 then (s, failed 500 ''Server error during registration'')
                 else
                   (case findOne (users s) ''email'' (JStr e) of
                      Some existingEmailUser \<Rightarrow>
                        (s, failed 400 ''User already exists with this email address'')
                    | None \<Rightarrow> register_save E s (new_user E s name email phone password))))"

subsection \<open>POST /api/auth/login and POST /api/auth/admin/login\<close>

text \<open>The user object both login handlers put in the response.\<close>

definition session_user :: "obj \<Rightarrow> obj" where
  "session_user user =
     literal
       [(''id'', map_of user ''_id''),
        (''name'', map_of user ''name''),
        (''email'', Some (or_else (map_of user ''email'') JNull)),
        (''role'', map_of user ''role''),
        (''phone'', map_of user ''phone''),
        (''createdAt'', map_of user ''createdAt''),
        (''lastLogin'', map_of user ''lastLogin'')]"

definition login :: "env \<Rightarrow> db \<Rightarrow> string \<Rightarrow> string \<Rightarrow> db \<times> response" where
  "login E s phone password =
     (if rejected E (FindOne Users ''phone'' (JStr phone))
      then (s, failed 500 ''Server error during login'')
      else
        case findOne (users s) ''phone'' (JStr phone) of
          None \<Rightarrow> (s, failed 401 ''Invalid phone number or password'')
        | Some user \<Rightarrow>
            if \<not> truthy (map_of user ''isActive'')
            then (s, failed 401 ''Account is deactivated. Please contact support.'')
            else if \<not> compare_password E password user
            then (s, failed 401 ''Invalid phone number or password'')
            else
              let user' = AList.update ''lastLogin'' (JNum (now E)) user in
              if rejected E (Save Users user')
              then (s, failed 500 ''Server error during login'')
              else
                (s\<lparr>users := replace_doc (map_of user ''_id'') user' (users s)\<rparr>,
                 succeeded 200 (Some ''Login successful! Welcome back.'')
                   (JObj [(''user'', JObj (session_user user')),
                          (''token'',
                           JStr (jwt_sign E (literal [(''userId'', map_of user' ''_id'')])))])))"

definition adminLogin :: "env \<Rightarrow> db \<Rightarrow> string \<Rightarrow> string \<Rightarrow> db \<times> response" where
  "adminLogin E s phone password =
     (if rejected E (FindOne Users ''phone'' (JStr phone))
      then (s, failed 500 ''Server error during admin login'')
      else
        case findOne (users s) ''phone'' (JStr phone) of
          None \<Rightarrow> (s, failed 401 ''Invalid admin credentials'')
        | Some user \<Rightarrow>
            if map_of user ''role'' \<noteq> Some (JStr ''admin'')
            then (s, failed 401 ''Invalid admin credentials'')
            else if \<not> compare_password E password user
            then (s, failed 401 ''Invalid admin credentials'')
            else
              let user' = AList.update ''lastLogin'' (JNum (now E)) user in
              if rejected E (Save Users user')
              then (s, failed 500 ''Server error during admin login'')
              else
                (s\<lparr>users := replace_doc (map_of user ''_id'') user' (users s)\<rparr>,
                 succeeded 200 (Some ''Admin login successful!'')
                   (JObj [(''user'', JObj (session_user user')),
                          (''token'',
                           JStr (jwt_sign E (literal [(''userId'', map_of user' ''_id''),
                                                      (''role'', map_of user' ''role'')])))])))"

subsection \<open>GET /api/auth/me and PUT /api/auth/profile\<close>

text \<open>
  Both run after the \<open>auth\<close> middleware, which supplies \<open>req.user._id\<close>. A Mongoose
  document in a response is serialised by the schema's \<open>toJSON\<close>, the parameter
  \<open>user_toJSON\<close>. \<open>select('-password')\<close> loads the document without its password path.
\<close>

text \<open>
  Modelled from the spec: the serialisation of a User document (models/User.js is not
  among the sources). The password field is never serialised: what a response holds of a
  user document is its public projection, the record view with the password hash field
  removed.
\<close>

definition public_projection :: "obj \<Rightarrow> obj" where
  "public_projection user = AList.delete ''password'' user"

definition getMe :: "env \<Rightarrow> db \<Rightarrow> string \<Rightarrow> response" where
  "getMe E s uid =
     (if rejected E (FindById Users uid)
      then failed 500 ''Server error while fetching profile''
      else
        succeeded 200 None
          (JObj [(''user'',
                  (case findById (users s) uid of
                     None \<Rightarrow> JNull
                   | Some user \<Rightarrow> JObj (user_toJSON E (AList.delete ''password'' user))))]))"

text \<open>
  No validation middleware runs here: \<open>name\<close> and \<open>phone\<close> are whatever the body holds;
  \<open>set_profile\<close> is \<open>if (name) user.name = name; if (phone) user.phone = phone\<close>.
  When no user has the id, \<open>user\<close> is \<open>null\<close> and the handler's next access throws,
  which its \<open>catch\<close> turns into the 500 response.
\<close>

definition set_profile :: "obj \<Rightarrow> obj \<Rightarrow> obj" where
  "set_profile body user =
     (let user1 = (if truthy (map_of body ''name'')
                   then AList.update ''name'' (or_else (map_of body ''name'') JNull) user
                   else user)
      in if truthy (map_of body ''phone'')
         then AList.update ''phone'' (or_else (map_of body ''phone'') JNull) user1
         else user1)"

definition updateProfile :: "env \<Rightarrow> db \<Rightarrow> string \<Rightarrow> obj \<Rightarrow> db \<times> response" where
  "updateProfile E s uid body =
     (if rejected E (FindById Users uid)
      then (s, failed 500 ''Server error while updating profile'')
      else
        case findById (users s) uid of
          None \<Rightarrow> (s, failed 500 ''Server error while updating profile'')
        | Some user \<Rightarrow>
            let user' = set_profile body user in
            if rejected E (Save Users user')
            then (s, failed 500 ''Server error while updating profile'')
            else
              (s\<lparr>users := replace_doc (Some (JStr uid)) user' (users s)\<rparr>,
               succeeded 200 (Some ''Profile updated successfully'')
                 (JObj [(''user'', JObj (user_toJSON E user'))])))"

section \<open>Search: GET /api/properties\<close>

subsection \<open>The query string\<close>

text \<open>\<open>req.query\<close>: a parameter is missing (\<open>None\<close>) or a string.\<close>

record query =
  q_page :: "string option"
  q_limit :: "string option"
  q_location :: "string option"
  q_type :: "string option"
  q_bhk :: "string option"
  q_status :: "string option"
  q_minPrice :: "string option"
  q_maxPrice :: "string option"
  q_search :: "string option"
  q_sortBy :: "string option"
  q_sortOrder :: "string option"

subsection \<open>parseInt\<close>

text \<open>
  \<open>parseInt(string)\<close>: leading (ASCII) white space is skipped, then an optional sign, then an
  optional \<open>0x\<close> (radix 16), then the longest run of digits of the radix; no digit gives
  \<open>NaN\<close>. The result is exact below \<open>2^53\<close>.
\<close>

definition is_space :: "char \<Rightarrow> bool" where
  "is_space c = ((of_char c :: nat) \<in> {9, 10, 11, 12, 13, 32})"

definition digit_of :: "nat \<Rightarrow> char \<Rightarrow> nat option" where
  "digit_of r c =
     (let n = (of_char c :: nat);
          d = (if 48 \<le> n \<and> n \<le> 57 then Some (n - 48)
               else if 97 \<le> n \<and> n \<le> 122 then Some (n - 87)
               else if 65 \<le> n \<and> n \<le> 90 then Some (n - 55)
               else None)
      in case d of None \<Rightarrow> None | Some v \<Rightarrow> if v < r then Some v else None)"

fun digits :: "nat \<Rightarrow> string \<Rightarrow> nat list" where
  "digits r [] = []"
| "digits r (c # cs) = (case digit_of r c of None \<Rightarrow> [] | Some d \<Rightarrow> d # digits r cs)"

fun strip_sign :: "string \<Rightarrow> int \<times> string" where
  "strip_sign [] = (1, [])"
| "strip_sign (c # cs) =
     (if c = CHR ''-'' then (- 1, cs) else if c = CHR ''+'' then (1, cs) else (1, c # cs))"

fun strip_radix :: "string \<Rightarrow> nat \<times> string" where
  "strip_radix (a # b # cs) =
     (if a = CHR ''0'' \<and> (b = CHR ''x'' \<or> b = CHR ''X'') then (16, cs) else (10, a # b # cs))"
| "strip_radix cs = (10, cs)"

definition parseInt :: "string \<Rightarrow> jsnum" where
  "parseInt str =
     (let (sign, s1) = strip_sign (dropWhile is_space str);
          (r, s2) = strip_radix s1;
          z = digits r s2
      in if z = [] then NaN else Num (sign * int (foldl (\<lambda>a d. a * r + d) 0 z)))"

subsection \<open>A string in arithmetic\<close>

text \<open>
  The handler uses \<open>page\<close> and \<open>limit\<close> in \<open>page - 1\<close>, \<open>* limit\<close>, \<open>limit * 1\<close>,
  \<open>total / limit\<close>, \<open>page < n\<close> and \<open>page > 1\<close>, which read a string as a number
  (\<open>ToNumber\<close>). \<open>to_integer\<close> is that number where it is an integer below \<open>2^53\<close> in
  magnitude and the string is written without a fraction: white space on both sides is
  dropped, the empty string is 0, and otherwise the string is an optional sign, digits,
  and an optional exponent (\<open>e\<close> or \<open>E\<close>, an optional \<open>+\<close>, digits). Every other string
  (a fraction, a negative exponent, a hexadecimal literal, \<open>Infinity\<close>, negative zero, a
  string that is no number) gives \<open>None\<close>.
\<close>

definition is_digit :: "char \<Rightarrow> bool" where
  "is_digit c = (48 \<le> (of_char c :: nat) \<and> (of_char c :: nat) \<le> 57)"

definition trim :: "string \<Rightarrow> string" where
  "trim str = rev (dropWhile is_space (rev (dropWhile is_space str)))"

definition decimal :: "string \<Rightarrow> nat" where
  "decimal ds = foldl (\<lambda>a d. a * 10 + d) 0 (digits 10 ds)"

fun exponent_part :: "string \<Rightarrow> nat option" where
  "exponent_part [] = Some 0"
| "exponent_part (c # cs) =
     (if c = CHR ''e'' \<or> c = CHR ''E''
      then (let ds = (case cs of [] \<Rightarrow> [] | d # ds' \<Rightarrow> if d = CHR ''+'' then ds' else cs)
            in if ds \<noteq> [] \<and> list_all is_digit ds then Some (decimal ds) else None)
      else None)"

definition to_integer :: "string \<Rightarrow> int option" where
  "to_integer str =
     (let s = trim str in
      if s = [] then Some 0
      else
        let (sign, s1) = strip_sign s;
            mantissa = takeWhile is_digit s1
        in if mantissa = [] then None
           else
             case exponent_part (dropWhile is_digit s1) of
               None \<Rightarrow> None
             | Some e \<Rightarrow>
                 let v = decimal mantissa * 10 ^ e
                 in if v < 2 ^ 53 \<and> \<not> (sign = - 1 \<and> v = 0) then Some (sign * int v)
                    else None)"

subsection \<open>The store's matching\<close>

text \<open>
  \<open>{$regex: pattern, $options: 'i'}\<close> searches the pattern anywhere in the string. The
  model covers the patterns made of printable ASCII characters that are ordinary
  characters or the dot (any character), on printable ASCII strings; every other pattern
  and string is left to the engine \<open>regex_ext\<close>.
\<close>

datatype atom = Lit char | AnyChar

definition printable :: "char \<Rightarrow> bool" where
  "printable c = (32 \<le> (of_char c :: nat) \<and> (of_char c :: nat) < 127)"

definition meta :: "char \<Rightarrow> bool" where
  "meta c = (c \<in> set (CHR 0x5C # ''^$.[]|()?*+{}''))"

definition lower :: "char \<Rightarrow> char" where
  "lower c = (let n = (of_char c :: nat) in if 65 \<le> n \<and> n \<le> 90 then char_of (n + 32) else c)"

fun atoms_of :: "string \<Rightarrow> atom list option" where
  "atoms_of [] = Some []"
| "atoms_of (c # cs) =
     (if c = CHR ''.'' then map_option (Cons AnyChar) (atoms_of cs)
      else if meta c \<or> \<not> printable c then None
      else map_option (Cons (Lit c)) (atoms_of cs))"

fun atom_matches :: "atom \<Rightarrow> char \<Rightarrow> bool" where
  "atom_matches (Lit a) c = (lower a = lower c)"
| "atom_matches AnyChar c = ((of_char c :: nat) \<noteq> 10)"

fun match_here :: "atom list \<Rightarrow> string \<Rightarrow> bool" where
  "match_here [] cs = True"
| "match_here (a # as) [] = False"
| "match_here (a # as) (c # cs) = (atom_matches a c \<and> match_here as cs)"

fun match_anywhere :: "atom list \<Rightarrow> string \<Rightarrow> bool" where
  "match_anywhere as [] = match_here as []"
| "match_anywhere as (c # cs) = (match_here as (c # cs) \<or> match_anywhere as cs)"

definition regex_i :: "env \<Rightarrow> string \<Rightarrow> string \<Rightarrow> bool" where
  "regex_i E pattern str =
     (case atoms_of pattern of
        None \<Rightarrow> regex_ext E pattern str
      | Some as \<Rightarrow> if list_all printable str then match_anywhere as str
                   else regex_ext E pattern str)"

text \<open>A bound of a range is a number the field is compared with; nothing compares with \<open>NaN\<close>.\<close>

fun at_least :: "int \<Rightarrow> jsnum option \<Rightarrow> bool" where
  "at_least p None = True"
| "at_least p (Some (Num n)) = (n \<le> p)"
| "at_least p (Some PosInfinity) = False"
| "at_least p (Some NaN) = False"

fun at_most :: "int \<Rightarrow> jsnum option \<Rightarrow> bool" where
  "at_most p None = True"
| "at_most p (Some (Num n)) = (p \<le> n)"
| "at_most p (Some PosInfinity) = True"
| "at_most p (Some NaN) = False"

fun matches :: "env \<Rightarrow> cond \<Rightarrow> obj \<Rightarrow> bool" where
  "matches E (Eq k v) d = (map_of d k = Some v)"
| "matches E (RegexI k pattern) d =
     (case map_of d k of Some (JStr str) \<Rightarrow> regex_i E pattern str | _ \<Rightarrow> False)"
| "matches E (Range k None None) d = (map_of d k = Some (JObj []))"
| "matches E (Range k lo hi) d =
     (case map_of d k of Some (JNum p) \<Rightarrow> at_least p lo \<and> at_most p hi | _ \<Rightarrow> False)"
| "matches E (Text words) d = text_match E words d"

definition satisfies :: "env \<Rightarrow> cond list \<Rightarrow> obj \<Rightarrow> bool" where
  "satisfies E flt d = list_all (\<lambda>c. matches E c d) flt"

text \<open>\<open>limit(n)\<close> of the store: 0 is no limit, and a negative limit is its absolute value.\<close>

definition limit_docs :: "int \<Rightarrow> obj list \<Rightarrow> obj list" where
  "limit_docs n ds = (if n = 0 then ds else take (nat \<bar>n\<bar>) ds)"

subsection \<open>The handler\<close>

text \<open>The filter object the handler builds, one condition for each property it sets.\<close>

definition build_filter :: "query \<Rightarrow> cond list" where
  "build_filter q =
     [Eq ''isApproved'' (JBool True), Eq ''isActive'' (JBool True)]
     @ (case q_location q of
          None \<Rightarrow> []
        | Some location \<Rightarrow> if location \<noteq> [] then [RegexI ''location'' location] else [])
     @ (case q_type q of
          None \<Rightarrow> []
        | Some t \<Rightarrow> if t \<noteq> [] \<and> t \<noteq> ''all'' then [Eq ''type'' (JStr t)] else [])
     @ (case q_bhk q of
          None \<Rightarrow> []
        | Some bhk \<Rightarrow> if bhk \<noteq> [] \<and> bhk \<noteq> ''all'' then [Eq ''bhk'' (JStr bhk)] else [])
     @ (case q_status q of
          None \<Rightarrow> []
        | Some st \<Rightarrow> if st \<noteq> [] then [Eq ''status'' (JStr st)] else [])
     @ (if truthy_str (q_minPrice q) \<or> truthy_str (q_maxPrice q)
        then [Range ''price''
                (case q_minPrice q of
                   None \<Rightarrow> None
                 | Some m \<Rightarrow> if m \<noteq> [] then Some (parseInt m) else None)
                (case q_maxPrice q of
                   None \<Rightarrow> None
                 | Some m \<Rightarrow> if m \<noteq> [] then Some (parseInt m) else None)]
        else [])
     @ (case q_search q of
          None \<Rightarrow> []
        | Some words \<Rightarrow> if words \<noteq> [] then [Text words] else [])"

text \<open>\<open>Math.ceil(total / limit)\<close>, \<open>page < n\<close> and the JSON of a number.\<close>

definition ceil_div :: "nat \<Rightarrow> int \<Rightarrow> jsnum" where
  "ceil_div n limit =
     (if limit = 0 then (if n = 0 then NaN else PosInfinity)
      else Num \<lceil>real n / real_of_int limit\<rceil>)"

fun less_than :: "int \<Rightarrow> jsnum \<Rightarrow> bool" where
  "less_than p (Num n) = (p < n)"
| "less_than p PosInfinity = True"
| "less_than p NaN = False"

fun number_json :: "jsnum \<Rightarrow> json" where
  "number_json (Num n) = JNum n"
| "number_json PosInfinity = JNull"
| "number_json NaN = JNull"

text \<open>
  \<open>const {page = 1, limit = 12, ..., sortBy = 'createdAt', sortOrder = 'desc'} = req.query\<close>
  and \<open>sort[sortBy] = sortOrder === 'desc' ? -1 : 1\<close>. \<open>page_of\<close> and \<open>limit_of\<close> are the
  numbers the arithmetic reads (\<open>None\<close>: not an integer), and \<open>currentPage_of\<close> is
  \<open>parseInt(page)\<close>, which the response reports.
\<close>

definition page_of :: "query \<Rightarrow> int option" where
  "page_of q = (case q_page q of None \<Rightarrow> Some 1 | Some str \<Rightarrow> to_integer str)"

definition limit_of :: "query \<Rightarrow> int option" where
  "limit_of q = (case q_limit q of None \<Rightarrow> Some 12 | Some str \<Rightarrow> to_integer str)"

definition currentPage_of :: "query \<Rightarrow> jsnum" where
  "currentPage_of q = (case q_page q of None \<Rightarrow> Num 1 | Some str \<Rightarrow> parseInt str)"

definition sortBy_of :: "query \<Rightarrow> string" where
  "sortBy_of q = (case q_sortBy q of None \<Rightarrow> ''createdAt'' | Some f \<Rightarrow> f)"

definition direction_of :: "query \<Rightarrow> int" where
  "direction_of q =
     (if (case q_sortOrder q of None \<Rightarrow> ''desc'' | Some d \<Rightarrow> d) = ''desc'' then - 1 else 1)"

text \<open>
  \<open>.limit(limit * 1).skip((page - 1) * limit)\<close>: the skip and the limit the store is given;
  it rejects a negative skip (\<open>None\<close>). A product from \<open>2^53\<close> on is rounded by the double
  multiplication and is, rounded or not, beyond the end of every collection.
\<close>

definition paging :: "env \<Rightarrow> query \<Rightarrow> (nat \<times> int) option" where
  "paging E q =
     (case page_of q of
        None \<Rightarrow> paging_ext E (q_page q) (q_limit q)
      | Some page \<Rightarrow>
          (case limit_of q of
             None \<Rightarrow> paging_ext E (q_page q) (q_limit q)
           | Some limit \<Rightarrow>
               if (page - 1) * limit < 0 then None
               else Some (nat ((page - 1) * limit), limit)))"

text \<open>
  \<open>Property.find(filter).populate('owner', 'name email phone').sort(sort).limit(...)
  .skip(...).lean()\<close>: the store applies the sort, then the skip, then the limit, whatever
  the order of the calls.
\<close>

definition find_properties :: "env \<Rightarrow> db \<Rightarrow> query \<Rightarrow> obj list" where
  "find_properties E s q =
     (case paging E q of
        None \<Rightarrow> []
      | Some (skip, limit) \<Rightarrow>
          map (populate_owner (users s))
            (limit_docs limit
              (drop skip
                (sort_docs E (sortBy_of q) (direction_of q)
                  (filter (satisfies E (build_filter q)) (properties s))))))"

text \<open>\<open>Property.countDocuments(filter)\<close>\<close>

definition countDocuments :: "env \<Rightarrow> db \<Rightarrow> query \<Rightarrow> nat" where
  "countDocuments E s q = length (filter (satisfies E (build_filter q)) (properties s))"

text \<open>
  The \<open>pagination\<close> object of the response, for the count \<open>n\<close>:
  \<open>{currentPage: parseInt(page), totalPages: Math.ceil(total / limit), totalProperties: total,
  hasNext: page < Math.ceil(total / limit), hasPrev: page > 1}\<close>.
\<close>

definition page_marks :: "env \<Rightarrow> query \<Rightarrow> nat \<Rightarrow> json \<times> bool \<times> bool" where
  "page_marks E q n =
     (case page_of q of
        None \<Rightarrow> pagination_ext E (q_page q) (q_limit q) n
      | Some page \<Rightarrow>
          (case limit_of q of
             None \<Rightarrow> pagination_ext E (q_page q) (q_limit q) n
           | Some limit \<Rightarrow>
               (number_json (ceil_div n limit), less_than page (ceil_div n limit), page > 1)))"

definition pagination :: "env \<Rightarrow> query \<Rightarrow> nat \<Rightarrow> obj" where
  "pagination E q n =
     (case page_marks E q n of
        (totalPages, hasNext, hasPrev) \<Rightarrow>
          [(''currentPage'', number_json (currentPage_of q)),
           (''totalPages'', totalPages),
           (''totalProperties'', JNum (int n)),
           (''hasNext'', JBool hasNext),
           (''hasPrev'', JBool hasPrev)])"

definition getProperties :: "env \<Rightarrow> db \<Rightarrow> query \<Rightarrow> response" where
  "getProperties E s q =
     (if rejected E (Find Properties (build_filter q))
         \<or> paging E q = None
         \<or> rejected E (CountDocuments Properties (build_filter q))
      then failed 500 ''Server error while fetching properties''
      else
        succeeded 200 None
          (JObj [(''properties'', JArr (map JObj (find_properties E s q))),
                 (''pagination'', JObj (pagination E q (countDocuments E s q)))]))"

section \<open>What the claims are stated with\<close>

text \<open>The view counter of a stored document, \<open>null\<close> and a missing counter read as 0.\<close>

definition view_count :: "obj \<Rightarrow> int" where
  "view_count d = (case map_of d ''views'' of Some (JNum n) \<Rightarrow> n | _ \<Rightarrow> 0)"

definition stored_views :: "db \<Rightarrow> string \<Rightarrow> int option" where
  "stored_views s pid = map_option view_count (findById (properties s) pid)"

text \<open>The user object of a response body \<open>{user: ..., ...}\<close>, when there is one.\<close>

fun response_user :: "response \<Rightarrow> obj option" where
  "response_user r =
     (case data r of
        Some (JObj kvs) \<Rightarrow> (case map_of kvs ''user'' of Some (JObj u) \<Rightarrow> Some u | _ \<Rightarrow> None)
      | _ \<Rightarrow> None)"

text \<open>The token of a response body \<open>{..., token}\<close>, when there is one.\<close>

fun response_token :: "response \<Rightarrow> string option" where
  "response_token r =
     (case data r of
        Some (JObj kvs) \<Rightarrow> (case map_of kvs ''token'' of Some (JStr t) \<Rightarrow> Some t | _ \<Rightarrow> None)
      | _ \<Rightarrow> None)"

text \<open>
  A case-insensitive substring, in the specification's words: the lower-cased pattern
  occurs as a contiguous part of the lower-cased string.
\<close>

definition ci_substring :: "string \<Rightarrow> string \<Rightarrow> bool" where
  "ci_substring pattern str = sublist (map lower pattern) (map lower str)"

text \<open>
  The search criteria in the specification's words, with the location condition as the
  code has it: every condition holds of a listed property, and a parameter that is missing,
  empty or (for type and bhk) \<open>all\<close> sets no condition.
\<close>

definition listed :: "env \<Rightarrow> query \<Rightarrow> obj \<Rightarrow> bool" where
  "listed E q d =
     (map_of d ''isApproved'' = Some (JBool True)
      \<and> map_of d ''isActive'' = Some (JBool True)
      \<and> (\<forall>l. q_location q = Some l \<and> l \<noteq> [] \<longrightarrow>
             (\<exists>str. map_of d ''location'' = Some (JStr str) \<and> regex_i E l str))
      \<and> (\<forall>t. q_type q = Some t \<and> t \<noteq> [] \<and> t \<noteq> ''all'' \<longrightarrow> map_of d ''type'' = Some (JStr t))
      \<and> (\<forall>b. q_bhk q = Some b \<and> b \<noteq> [] \<and> b \<noteq> ''all'' \<longrightarrow> map_of d ''bhk'' = Some (JStr b))
      \<and> (\<forall>st. q_status q = Some st \<and> st \<noteq> [] \<longrightarrow> map_of d ''status'' = Some (JStr st))
      \<and> (\<forall>m. q_minPrice q = Some m \<and> m \<noteq> [] \<longrightarrow>
             (\<exists>n p. parseInt m = Num n \<and> map_of d ''price'' = Some (JNum p) \<and> n \<le> p))
      \<and> (\<forall>m. q_maxPrice q = Some m \<and> m \<noteq> [] \<longrightarrow>
             (\<exists>n p. parseInt m = Num n \<and> map_of d ''price'' = Some (JNum p) \<and> p \<le> n))
      \<and> (\<forall>w. q_search q = Some w \<and> w \<noteq> [] \<longrightarrow> text_match E w d))"

section \<open>A concrete store\<close>

definition env0 :: env where
  "env0 =
     \<lparr>now = 1700000000,
      new_id = (\<lambda>ds. replicate (Suc (length ds)) (CHR ''n'')),
      jwt_sign = (\<lambda>payload. concat (map fst payload)),
      hash_password = (\<lambda>p. ''hash:'' @ p),
      compare_password = (\<lambda>p u. map_of u ''password'' = Some (JStr (''hash:'' @ p))),
      user_defaults = [(''role'', JStr ''user''), (''isActive'', JBool True)],
      property_defaults = [(''views'', JNum 0)],
      user_toJSON = public_projection,
      failure = (\<lambda>c. None),
      regex_ext = (\<lambda>pattern str. False),
      text_match = (\<lambda>w d. False),
      sort_docs = (\<lambda>k direction ds. ds),
      sendPropertyListedEmail = (\<lambda>p. False),
      sendAdminNotification = (\<lambda>p. False),
      paging_ext = (\<lambda>page limit. None),
      pagination_ext = (\<lambda>page limit n. (JNull, False, False))\<rparr>"

definition admin0 :: obj where
  "admin0 =
     [(''_id'', JStr ''u1''), (''name'', JStr ''Super Admin''), (''phone'', JStr ''2222222222''),
      (''password'', JStr ''hash:smitaa''), (''role'', JStr ''admin''), (''isActive'', JBool True)]"

definition retired0 :: obj where
  "retired0 =
     [(''_id'', JStr ''u2''), (''name'', JStr ''Old Admin''), (''phone'', JStr ''3333333333''),
      (''password'', JStr ''hash:secret''), (''role'', JStr ''admin''), (''isActive'', JBool False)]"

definition flat0 :: obj where
  "flat0 =
     [(''_id'', JStr ''p1''), (''owner'', JStr ''u1''), (''type'', JStr ''flat''),
      (''bhk'', JStr ''2''), (''location'', JStr ''Vasai''), (''price'', JNum 5000000),
      (''isApproved'', JBool True), (''isActive'', JBool True), (''views'', JNum 7)]"

definition shop0 :: obj where
  "shop0 =
     [(''_id'', JStr ''p2''), (''owner'', JStr ''u1''), (''type'', JStr ''shop''),
      (''location'', JStr ''Virar''), (''price'', JNum 900000),
      (''isApproved'', JBool False), (''isActive'', JBool True), (''views'', JNum 0)]"

definition db0 :: db where
  "db0 = \<lparr>users = [admin0, retired0], properties = [flat0, shop0]\<rparr>"

definition no_query :: query where
  "no_query =
     \<lparr>q_page = None, q_limit = None, q_location = None, q_type = None, q_bhk = None,
      q_status = None, q_minPrice = None, q_maxPrice = None, q_search = None,
      q_sortBy = None, q_sortOrder = None\<rparr>"



text \<open>A store whose one listing has been viewed \<open>2^53\<close> times.\<close>

definition busy0 :: obj where
  "busy0 =
     [(''_id'', JStr ''p3''), (''owner'', JStr ''u1''), (''isApproved'', JBool True),
      (''isActive'', JBool True), (''views'', JNum 9007199254740992)]"

definition db_busy :: db where
  "db_busy = \<lparr>users = [admin0], properties = [busy0]\<rparr>"

text \<open>Two creation requests and an update request.\<close>

definition request0 :: obj where
  "request0 =
     [(''title'', JStr ''Sea view''), (''isApproved'', JBool False), (''isActive'', JBool False),
      (''images'', JArr [JStr ''a.jpg'', JStr ''b.jpg''])]"

definition request1 :: obj where
  "request1 = [(''title'', JStr ''Sea view''), (''image'', JStr ''c.jpg''),
               (''ownerEmail'', JStr ''owner@example.com'')]"

definition change0 :: obj where
  "change0 = [(''isApproved'', JBool False), (''price'', JNum 1)]"


text \<open>Three search requests.\<close>

definition dot_query :: query where
  "dot_query = no_query\<lparr>q_location := Some ''.''\<rparr>"

definition flat_query :: query where
  "flat_query = no_query\<lparr>q_location := Some ''vasai'', q_type := Some ''flat'',
                         q_bhk := Some ''all'', q_minPrice := Some ''1000000''\<rparr>"



section \<open>Lemmas about the store and the handlers\<close>

lemma find_id: "find (\<lambda>d. map_of d ''_id'' = i) ds = Some p \<Longrightarrow> map_of p ''_id'' = i"
  by (induction ds) (auto split: if_splits)

lemma findById_id: "findById ds i = Some p \<Longrightarrow> map_of p ''_id'' = Some (JStr i)"
  unfolding findById_def by (rule find_id)

lemma find_replace_same:
  "find (\<lambda>d. map_of d ''_id'' = i) ds = Some p \<Longrightarrow> map_of p' ''_id'' = i
   \<Longrightarrow> find (\<lambda>d. map_of d ''_id'' = i) (replace_doc i p' ds) = Some p'"
  by (induction ds) (auto split: if_splits)

lemma find_replace_other:
  "map_of p' ''_id'' = i \<Longrightarrow> j \<noteq> i
   \<Longrightarrow> find (\<lambda>d. map_of d ''_id'' = j) (replace_doc i p' ds) = find (\<lambda>d. map_of d ''_id'' = j) ds"
  by (induction ds) (auto split: if_splits)

lemma findById_replace_same:
  "findById ds i = Some p \<Longrightarrow> map_of p' ''_id'' = Some (JStr i)
   \<Longrightarrow> findById (replace_doc (Some (JStr i)) p' ds) i = Some p'"
  unfolding findById_def by (rule find_replace_same)

lemma findById_replace_other:
  "map_of p' ''_id'' = Some (JStr i) \<Longrightarrow> j \<noteq> i
   \<Longrightarrow> findById (replace_doc (Some (JStr i)) p' ds) j = findById ds j"
  unfolding findById_def by (rule find_replace_other) auto

lemma round_double_exact: "\<bar>x\<bar> \<le> 2 ^ 53 \<Longrightarrow> round_double x = x"
proof (cases "\<bar>x\<bar> < 2 ^ 53")
  case True
  then have "nat \<bar>x\<bar> < 2 ^ 53" by (simp add: nat_less_iff)
  then have "shifts (nat \<bar>x\<bar>) = 0" by (subst shifts.simps) simp
  then show ?thesis by (simp add: round_double_def Let_def)
next
  case False
  assume "\<bar>x\<bar> \<le> 2 ^ 53"
  with False have "\<bar>x\<bar> = 9007199254740992" by simp
  then have "x = 9007199254740992 \<or> x = - 9007199254740992" by linarith
  moreover have "round_double 9007199254740992 = 9007199254740992"
    by (simp add: round_double_def Let_def shifts.simps)
  moreover have "round_double (- 9007199254740992) = - 9007199254740992"
    by (simp add: round_double_def Let_def shifts.simps)
  ultimately show ?thesis by auto
qed

lemma round_double_one: "round_double 1 = 1"
  by (rule round_double_exact) simp

lemma plus_one_view_count:
  "plus_one (map_of p ''views'') = Some v \<Longrightarrow> v = JNum (round_double (view_count p + 1))"
  by (cases "(map_of p ''views'')" rule: plus_one.cases)
    (simp_all add: view_count_def round_double_one)

lemma status_failed: "status (failed c m) = c"
  by (simp add: failed_def)

lemma status_succeeded: "status (succeeded c m d) = c"
  by (simp add: succeeded_def)

lemma getProperty_ok:
  assumes "getProperty E s pid = (s1, r1)" and "status r1 = 200"
  shows "\<exists>p. findById (properties s) pid = Some p
     \<and> s1 = s\<lparr>properties := replace_doc (Some (JStr pid))
                 (AList.update ''views'' (JNum (round_double (view_count p + 1))) p)
                 (properties s)\<rparr>
     \<and> r1 = succeeded 200 None (JObj [(''property'',
               JObj (populate_owner (users s)
                 (AList.update ''views'' (JNum (round_double (view_count p + 1))) p)))])"
proof (cases "findById (properties s) pid")
  case None
  with assms show ?thesis
    by (auto simp: getProperty_def status_failed split: if_splits)
next
  case (Some p)
  show ?thesis
  proof (cases "plus_one (map_of p ''views'')")
    case None
    with Some assms show ?thesis
      by (auto simp: getProperty_def status_failed split: if_splits)
  next
    case (Some v)
    have v: "v = JNum (round_double (view_count p + 1))"
      using Some by (rule plus_one_view_count)
    from \<open>findById (properties s) pid = Some p\<close> Some assms show ?thesis
      unfolding v by (auto simp: getProperty_def status_failed Let_def split: if_splits)
  qed
qed

lemma literal_absent: "k \<notin> fst ` set kvs \<Longrightarrow> map_of (literal kvs) k = None"
  by (induction kvs rule: literal.induct) auto

lemma session_user_password: "map_of (session_user u) ''password'' = None"
  unfolding session_user_def by (rule literal_absent) simp

lemma login_cases:
  assumes "\<not> rejected E (FindOne Users ''phone'' (JStr phone))"
  shows "findOne (users s) ''phone'' (JStr phone) = None \<Longrightarrow>
           login E s phone password = (s, failed 401 ''Invalid phone number or password'')"
    and "findOne (users s) ''phone'' (JStr phone) = Some user \<Longrightarrow>
           \<not> truthy (map_of user ''isActive'') \<Longrightarrow>
           login E s phone password = (s, failed 401 ''Account is deactivated. Please contact support.'')"
    and "findOne (users s) ''phone'' (JStr phone) = Some user \<Longrightarrow>
           truthy (map_of user ''isActive'') \<Longrightarrow> \<not> compare_password E password user \<Longrightarrow>
           login E s phone password = (s, failed 401 ''Invalid phone number or password'')"
  using assms by (simp_all add: login_def)

lemma adminLogin_cases:
  assumes "\<not> rejected E (FindOne Users ''phone'' (JStr phone))"
  shows "findOne (users s) ''phone'' (JStr phone) = None \<Longrightarrow>
           adminLogin E s phone password = (s, failed 401 ''Invalid admin credentials'')"
    and "findOne (users s) ''phone'' (JStr phone) = Some user \<Longrightarrow>
           map_of user ''role'' \<noteq> Some (JStr ''admin'') \<Longrightarrow>
           adminLogin E s phone password = (s, failed 401 ''Invalid admin credentials'')"
    and "findOne (users s) ''phone'' (JStr phone) = Some user \<Longrightarrow>
           map_of user ''role'' = Some (JStr ''admin'') \<Longrightarrow> \<not> compare_password E password user \<Longrightarrow>
           adminLogin E s phone password = (s, failed 401 ''Invalid admin credentials'')"
    and "findOne (users s) ''phone'' (JStr phone) = Some user \<Longrightarrow>
           map_of user ''role'' = Some (JStr ''admin'') \<Longrightarrow> compare_password E password user \<Longrightarrow>
           \<not> rejected E (Save Users (AList.update ''lastLogin'' (JNum (now E)) user)) \<Longrightarrow>
           adminLogin E s phone password =
             (s\<lparr>users := replace_doc (map_of user ''_id'')
                             (AList.update ''lastLogin'' (JNum (now E)) user) (users s)\<rparr>,
              succeeded 200 (Some ''Admin login successful!'')
                (JObj [(''user'', JObj (session_user (AList.update ''lastLogin'' (JNum (now E)) user))),
                       (''token'',
                        JStr (jwt_sign E (literal [(''userId'', map_of user ''_id''),
                                                   (''role'', Some (JStr ''admin''))])))]))"
  using assms by (simp_all add: adminLogin_def Let_def update_conv')


lemma response_user_failed: "response_user (failed c m) = None"
  by (simp add: failed_def)

lemma response_user_succeeded:
  "response_user (succeeded c m (JObj kvs)) =
     (case map_of kvs ''user'' of Some (JObj u) \<Rightarrow> Some u | _ \<Rightarrow> None)"
  by (simp add: succeeded_def)

lemma login_hides_password:
  "response_user (snd (login E s phone password)) = Some u \<Longrightarrow> map_of u ''password'' = None"
  by (auto simp: login_def Let_def response_user_failed response_user_succeeded
        session_user_password simp del: response_user.simps split: if_splits option.splits)

lemma adminLogin_hides_password:
  "response_user (snd (adminLogin E s phone password)) = Some u \<Longrightarrow> map_of u ''password'' = None"
  by (auto simp: adminLogin_def Let_def response_user_failed response_user_succeeded
        session_user_password simp del: response_user.simps split: if_splits option.splits)

lemma register_saved_hides_password:
  "response_user (snd (register_saved E s user)) = Some u \<Longrightarrow> map_of u ''password'' = None"
  by (auto simp: register_saved_def response_user_succeeded literal_absent
        simp del: response_user.simps)

lemma register_save_hides_password:
  "response_user (snd (register_save E s user)) = Some u \<Longrightarrow> map_of u ''password'' = None"
  by (auto simp: register_save_def response_user_failed register_saved_hides_password
        simp del: response_user.simps split: if_splits option.splits failure.splits)

lemma register_hides_password:
  "response_user (snd (register E s name email phone password)) = Some u
   \<Longrightarrow> map_of u ''password'' = None"
  by (auto simp: register_def response_user_failed register_save_hides_password
        simp del: response_user.simps split: if_splits option.splits)

lemma getMe_hides_password:
  assumes "\<forall>d. fst ` set (user_toJSON E d) \<subseteq> fst ` set d"
    and "response_user (getMe E s uid) = Some u"
  shows "map_of u ''password'' = None"
proof -
  from assms(2) obtain user where u: "u = user_toJSON E (AList.delete ''password'' user)"
    by (auto simp: getMe_def response_user_failed response_user_succeeded
          simp del: response_user.simps split: if_splits option.splits)
  have "''password'' \<notin> fst ` set (AList.delete ''password'' user)"
    by (rule delete_notin_dom)
  with assms(1) have "''password'' \<notin> fst ` set u" unfolding u by blast
  then show ?thesis by (simp add: map_of_eq_None_iff)
qed

lemma map_of_add_missing:
  "map_of (fold (\<lambda>(k, v) acc. if map_of acc k = None then acc @ [(k, v)] else acc) xs acc) k
     = (case map_of acc k of Some v \<Rightarrow> Some v | None \<Rightarrow> map_of xs k)"
proof (induction xs arbitrary: acc)
  case Nil
  then show ?case by (simp split: option.splits)
next
  case (Cons x xs)
  obtain k' v' where x: "x = (k', v')" by (cases x)
  show ?case
    by (simp add: x Cons.IH map_add_def split: option.splits)
qed

lemma map_of_new_document:
  "map_of (new_document i defaults d) k
     = (case map_of d k of Some v \<Rightarrow> Some v | None \<Rightarrow> map_of ((''_id'', JStr i) # defaults) k)"
  unfolding new_document_def by (rule map_of_add_missing)

lemma propertyData_flags:
  "map_of (propertyData uid body) ''isApproved'' = Some (JBool True)"
  "map_of (propertyData uid body) ''isActive'' = Some (JBool True)"
  "map_of (propertyData uid body) ''owner'' = Some uid"
  "map_of (propertyData uid body) ''images''
     = Some (JArr [or_else (map_of body ''image'') (JStr placeholder)])"
  by (simp_all add: propertyData_def update_conv')

lemma createProperty_created:
  assumes "status (fst (snd (createProperty E s uid body))) = 201"
  shows "createProperty E s uid body =
           (let property = new_document (new_id E (properties s)) (property_defaults E)
                             (propertyData uid body);
                populated = populate_owner (users s) property
            in (s\<lparr>properties := properties s @ [property]\<rparr>,
                succeeded 201 (Some ''Property listed successfully and is now live on the website!'')
                  (JObj [(''property'', JObj populated)]),
                if mails_delivered E populated then [] else [''Email notification error:'']))"
  using assms
  by (auto simp: createProperty_def Let_def status_failed split: if_splits)

lemma createProperty_store:
  "fst (createProperty E s uid body) = s
   \<or> fst (createProperty E s uid body)
       = s\<lparr>properties := properties s @
             [new_document (new_id E (properties s)) (property_defaults E) (propertyData uid body)]\<rparr>"
  by (auto simp: createProperty_def Let_def split: if_splits)

lemma map_of_assign:
  "map_of (assign target source) k
     = (case map_of (rev source) k of Some v \<Rightarrow> Some v | None \<Rightarrow> map_of target k)"
  unfolding assign_def
proof (induction source arbitrary: target)
  case Nil
  then show ?case by simp
next
  case (Cons x xs)
  obtain k' v' where x: "x = (k', v')" by (cases x)
  show ?case
    by (simp add: x Cons.IH update_conv' map_add_def split: option.splits)
qed

lemma updateProperty_ok:
  assumes "status (snd (updateProperty E s pid body)) = 200"
  shows "\<exists>p. findById (properties s) pid = Some p
           \<and> map_of (AList.update ''isApproved'' (JBool True) (assign p body)) ''_id''
               = Some (JStr pid)
           \<and> updateProperty E s pid body =
               (s\<lparr>properties := replace_doc (Some (JStr pid))
                    (AList.update ''isApproved'' (JBool True) (assign p body)) (properties s)\<rparr>,
                succeeded 200 (Some ''Property updated successfully!'')
                  (JObj [(''property'', JObj (populate_owner (users s)
                     (AList.update ''isApproved'' (JBool True) (assign p body))))]))"
proof (cases "findById (properties s) pid")
  case None
  with assms show ?thesis
    by (auto simp: updateProperty_def status_failed split: if_splits)
next
  case (Some p)
  with assms show ?thesis
    by (auto simp: updateProperty_def Let_def status_failed split: if_splits)
qed

lemma new_id0: "new_id env0 (properties db0) = ''nnn''"
  by (simp add: env0_def db0_def)

lemma created0:
  "status (fst (snd (createProperty env0 db0 (JStr ''u1'') request0))) = 201"
  by (simp add: createProperty_def new_id0 Let_def new_document_def propertyData_def request0_def
        rejected_def status_succeeded status_failed)
    (simp add: env0_def db0_def flat0_def shop0_def)

lemma created1:
  "status (fst (snd (createProperty env0 db0 (JStr ''u1'') request1))) = 201"
  by (simp add: createProperty_def new_id0 Let_def new_document_def propertyData_def request1_def
        rejected_def status_succeeded status_failed)
    (simp add: env0_def db0_def flat0_def shop0_def)

lemma updated0: "status (snd (updateProperty env0 db0 ''p2'' change0)) = 200"
  by (simp add: updateProperty_def Let_def rejected_def env0_def findById_def db0_def
        flat0_def shop0_def change0_def assign_def status_succeeded status_failed)

lemma populate_other: "k \<noteq> ''owner'' \<Longrightarrow> map_of (populate_owner us d) k = map_of d k"
  by (simp add: populate_owner_def update_conv' split: option.splits)

lemma populate_no_owner: "map_of d ''owner'' = None \<Longrightarrow> populate_owner us d = d"
  by (simp add: populate_owner_def)

lemma populate_owner_field:
  "map_of d ''owner'' = Some r \<Longrightarrow>
   map_of (populate_owner us d) ''owner''
     = Some (case find (\<lambda>u. map_of u ''_id'' = Some r) us of
               None \<Rightarrow> JNull
             | Some u \<Rightarrow>
                 JObj (filter (\<lambda>(k, v). k \<in> {''_id'', ''name'', ''email'', ''phone''}) u))"
  by (simp add: populate_owner_def update_conv' project_def split: option.splits)

lemma getProperty_step:
  assumes "getProperty E s pid = (s1, r1)" and "status r1 = 200"
    and "findById (properties s) pid = Some p" and "\<bar>view_count p\<bar> < 2 ^ 53"
  shows "s1 = s\<lparr>properties := replace_doc (Some (JStr pid))
                 (AList.update ''views'' (JNum (view_count p + 1)) p) (properties s)\<rparr>"
    and "r1 = succeeded 200 None (JObj [(''property'',
               JObj (populate_owner (users s)
                 (AList.update ''views'' (JNum (view_count p + 1)) p)))])"
    and "findById (properties s1) pid = Some (AList.update ''views'' (JNum (view_count p + 1)) p)"
    and "\<forall>j. j \<noteq> pid \<longrightarrow> findById (properties s1) j = findById (properties s) j"
    and "stored_views s pid = Some (view_count p)"
    and "stored_views s1 pid = Some (view_count p + 1)"
proof -
  from assms(4) have "\<bar>view_count p + 1\<bar> \<le> 2 ^ 53" by simp
  then have rd: "round_double (view_count p + 1) = view_count p + 1"
    by (rule round_double_exact)
  let ?p' = "AList.update ''views'' (JNum (view_count p + 1)) p"
  from getProperty_ok[OF assms(1,2)] assms(3)
  show s1: "s1 = s\<lparr>properties := replace_doc (Some (JStr pid)) ?p' (properties s)\<rparr>"
    and "r1 = succeeded 200 None (JObj [(''property'', JObj (populate_owner (users s) ?p'))])"
    by (auto simp: rd)
  have id: "map_of ?p' ''_id'' = Some (JStr pid)"
    using findById_id[OF assms(3)] by (simp add: update_conv')
  show same: "findById (properties s1) pid = Some ?p'"
    using findById_replace_same[OF assms(3) id] by (simp add: s1)
  show "\<forall>j. j \<noteq> pid \<longrightarrow> findById (properties s1) j = findById (properties s) j"
    using findById_replace_other[OF id] by (simp add: s1)
  show "stored_views s pid = Some (view_count p)"
    by (simp add: stored_views_def assms(3))
  have "view_count ?p' = view_count p + 1"
    by (simp add: view_count_def update_conv')
  then show "stored_views s1 pid = Some (view_count p + 1)"
    by (simp add: stored_views_def same)
qed


lemma public_projection_password: "map_of (public_projection d) ''password'' = None"
  by (simp add: public_projection_def delete_conv')

lemma public_projection_keys: "fst ` set (public_projection d) \<subseteq> fst ` set d"
  by (auto simp: public_projection_def AList.delete_eq)

lemma updateProfile_hides_password:
  assumes "user_toJSON E = public_projection"
    and "response_user (snd (updateProfile E s uid body)) = Some u"
  shows "map_of u ''password'' = None"
  using assms
  by (auto simp: updateProfile_def Let_def response_user_failed response_user_succeeded
        public_projection_password simp del: response_user.simps
        split: if_splits option.splits)


lemma satisfies_append: "satisfies E (a @ b) d = (satisfies E a d \<and> satisfies E b d)"
  by (simp add: satisfies_def)

lemma satisfies_Nil: "satisfies E [] d"
  by (simp add: satisfies_def)

lemma satisfies_single: "satisfies E [c] d = matches E c d"
  by (simp add: satisfies_def)

lemma satisfies_Cons: "satisfies E (c # cs) d = (matches E c d \<and> satisfies E cs d)"
  by (simp add: satisfies_def)

lemma digits_parse: "parseInt m = NaN \<or> (\<exists>n. parseInt m = Num n)"
  by (simp add: parseInt_def Let_def split: prod.splits)

lemma matches_regex:
  "matches E (RegexI k l) d = (\<exists>str. map_of d k = Some (JStr str) \<and> regex_i E l str)"
  by (auto split: option.splits json.splits)

lemma at_least_parse: "at_least p (Some (parseInt m)) = (\<exists>n. parseInt m = Num n \<and> n \<le> p)"
  using digits_parse[of m] by auto

lemma at_most_parse: "at_most p (Some (parseInt m)) = (\<exists>n. parseInt m = Num n \<and> p \<le> n)"
  using digits_parse[of m] by auto

lemma matches_range:
  "lo \<noteq> None \<or> hi \<noteq> None \<Longrightarrow>
   matches E (Range k lo hi) d
     = (\<exists>p. map_of d k = Some (JNum p) \<and> at_least p lo \<and> at_most p hi)"
  by (cases lo; cases hi) (auto split: option.splits json.splits)

lemma price_condition:
  "satisfies E
     (if truthy_str lo \<or> truthy_str hi
      then [Range ''price''
              (case lo of None \<Rightarrow> None | Some m \<Rightarrow> if m \<noteq> [] then Some (parseInt m) else None)
              (case hi of None \<Rightarrow> None | Some m \<Rightarrow> if m \<noteq> [] then Some (parseInt m) else None)]
      else []) d
   = ((\<forall>m. lo = Some m \<and> m \<noteq> [] \<longrightarrow>
          (\<exists>n p. parseInt m = Num n \<and> map_of d ''price'' = Some (JNum p) \<and> n \<le> p))
    \<and> (\<forall>m. hi = Some m \<and> m \<noteq> [] \<longrightarrow>
          (\<exists>n p. parseInt m = Num n \<and> map_of d ''price'' = Some (JNum p) \<and> p \<le> n)))"
proof (cases "truthy_str lo \<or> truthy_str hi")
  case False
  then show ?thesis
    by (auto simp: truthy_str_def satisfies_Nil split: option.splits)
next
  case True
  let ?lo = "case lo of None \<Rightarrow> None | Some m \<Rightarrow> if m \<noteq> [] then Some (parseInt m) else None"
  let ?hi = "case hi of None \<Rightarrow> None | Some m \<Rightarrow> if m \<noteq> [] then Some (parseInt m) else None"
  from True have ne: "?lo \<noteq> None \<or> ?hi \<noteq> None"
    by (auto simp: truthy_str_def split: option.splits)
  have lo: "at_least p ?lo = (\<forall>m. lo = Some m \<and> m \<noteq> [] \<longrightarrow> (\<exists>n. parseInt m = Num n \<and> n \<le> p))" for p
    by (cases lo) (simp_all add: at_least_parse)
  have hi: "at_most p ?hi = (\<forall>m. hi = Some m \<and> m \<noteq> [] \<longrightarrow> (\<exists>n. parseInt m = Num n \<and> p \<le> n))" for p
    by (cases hi) (simp_all add: at_most_parse)
  have "satisfies E [Range ''price'' ?lo ?hi] d
          = (\<exists>p. map_of d ''price'' = Some (JNum p) \<and> at_least p ?lo \<and> at_most p ?hi)"
    by (simp only: satisfies_single matches_range[OF ne])
  also have "\<dots> = ((\<forall>m. lo = Some m \<and> m \<noteq> [] \<longrightarrow>
          (\<exists>n p. parseInt m = Num n \<and> map_of d ''price'' = Some (JNum p) \<and> n \<le> p))
    \<and> (\<forall>m. hi = Some m \<and> m \<noteq> [] \<longrightarrow>
          (\<exists>n p. parseInt m = Num n \<and> map_of d ''price'' = Some (JNum p) \<and> p \<le> n)))"
    using True unfolding lo hi
    by (cases lo; cases hi) (auto simp: truthy_str_def)
  finally show ?thesis using True by simp
qed

lemma satisfies_listed: "satisfies E (build_filter q) d = listed E q d"
proof -
  have loc: "satisfies E (case q_location q of None \<Rightarrow> []
               | Some location \<Rightarrow> if location \<noteq> [] then [RegexI ''location'' location] else []) d
           = (\<forall>l. q_location q = Some l \<and> l \<noteq> [] \<longrightarrow>
                (\<exists>str. map_of d ''location'' = Some (JStr str) \<and> regex_i E l str))"
    by (cases "q_location q")
      (simp_all add: satisfies_Nil satisfies_single matches_regex del: matches.simps)
  have ty: "satisfies E (case q_type q of None \<Rightarrow> []
               | Some t \<Rightarrow> if t \<noteq> [] \<and> t \<noteq> ''all'' then [Eq ''type'' (JStr t)] else []) d
           = (\<forall>t. q_type q = Some t \<and> t \<noteq> [] \<and> t \<noteq> ''all'' \<longrightarrow> map_of d ''type'' = Some (JStr t))"
    by (cases "q_type q") (simp_all add: satisfies_Nil satisfies_single)
  have bh: "satisfies E (case q_bhk q of None \<Rightarrow> []
               | Some bhk \<Rightarrow> if bhk \<noteq> [] \<and> bhk \<noteq> ''all'' then [Eq ''bhk'' (JStr bhk)] else []) d
           = (\<forall>b. q_bhk q = Some b \<and> b \<noteq> [] \<and> b \<noteq> ''all'' \<longrightarrow> map_of d ''bhk'' = Some (JStr b))"
    by (cases "q_bhk q") (simp_all add: satisfies_Nil satisfies_single)
  have st: "satisfies E (case q_status q of None \<Rightarrow> []
               | Some st \<Rightarrow> if st \<noteq> [] then [Eq ''status'' (JStr st)] else []) d
           = (\<forall>st. q_status q = Some st \<and> st \<noteq> [] \<longrightarrow> map_of d ''status'' = Some (JStr st))"
    by (cases "q_status q") (simp_all add: satisfies_Nil satisfies_single)
  have se: "satisfies E (case q_search q of None \<Rightarrow> []
               | Some words \<Rightarrow> if words \<noteq> [] then [Text words] else []) d
           = (\<forall>w. q_search q = Some w \<and> w \<noteq> [] \<longrightarrow> text_match E w d)"
    by (cases "q_search q") (simp_all add: satisfies_Nil satisfies_single)
  show ?thesis
    unfolding build_filter_def listed_def satisfies_append loc ty bh st se price_condition
    by (simp add: satisfies_Cons satisfies_Nil)
qed

lemma atoms_literal:
  "\<not> list_ex meta l \<Longrightarrow> list_all printable l \<Longrightarrow> atoms_of l = Some (map Lit l)"
proof (induction l)
  case Nil
  then show ?case by simp
next
  case (Cons c cs)
  from Cons.prems have "c \<noteq> CHR ''.''" by (auto simp: meta_def)
  with Cons show ?case by simp
qed

lemma match_here_prefix: "match_here (map Lit p) str = prefix (map lower p) (map lower str)"
proof (induction p arbitrary: str)
  case Nil
  then show ?case by simp
next
  case (Cons a p)
  then show ?case by (cases str) simp_all
qed

lemma match_anywhere_sublist:
  "match_anywhere (map Lit p) str = sublist (map lower p) (map lower str)"
proof (induction str)
  case Nil
  then show ?case by (cases p) simp_all
next
  case (Cons c cs)
  then show ?case
    by (simp add: match_here_prefix sublist_Cons_right del: match_here.simps)
qed

lemma regex_literal:
  "\<not> list_ex meta l \<Longrightarrow> list_all printable l \<Longrightarrow> list_all printable str
   \<Longrightarrow> regex_i E l str = ci_substring l str"
  by (simp add: regex_i_def atoms_literal match_anywhere_sublist ci_substring_def)

lemma found_listed:
  "filter (satisfies E (build_filter q)) ds = filter (listed E q) ds"
  by (rule filter_cong) (simp_all add: satisfies_listed)

lemma getProperties_ok:
  "status (getProperties E s q) = 200 \<Longrightarrow>
   getProperties E s q =
     succeeded 200 None
       (JObj [(''properties'', JArr (map JObj (find_properties E s q))),
              (''pagination'', JObj (pagination E q (countDocuments E s q)))])"
  by (auto simp: getProperties_def status_failed split: if_splits)

lemma lower_examples: "map lower ''Vasai'' = ''vasai''" "map lower ''vasai'' = ''vasai''" "map lower ''.'' = ''.''"
  by code_simp+

lemma dot_not_in_Vasai: "\<not> ci_substring ''.'' ''Vasai''"
  by code_simp

lemma vasai_in_Vasai: "ci_substring ''vasai'' ''Vasai''"
  by code_simp

lemma dot_matches_Vasai: "regex_i env0 ''.'' ''Vasai''"
  by (simp add: regex_i_def meta_def printable_def)

lemma parseInt_million: "parseInt ''1000000'' = Num 1000000"
  by (simp add: parseInt_def is_space_def digit_of_def Let_def)

lemma flat0_listed: "listed env0 flat_query flat0"
proof -
  have "regex_i env0 ''vasai'' ''Vasai''" by code_simp
  then show ?thesis
    by (simp add: listed_def flat_query_def no_query_def flat0_def parseInt_million)
qed

lemma shop0_not_listed: "\<not> listed env0 flat_query shop0"
  by (simp add: listed_def flat_query_def no_query_def shop0_def)

lemma dot_query_listed: "listed env0 dot_query flat0" "\<not> listed env0 dot_query shop0"
  by (simp_all add: listed_def dot_query_def no_query_def flat0_def shop0_def dot_matches_Vasai)


lemma query_defaults:
  "page_of no_query = Some 1" "limit_of no_query = Some 12" "currentPage_of no_query = Num 1"
  "page_of dot_query = Some 1" "limit_of dot_query = Some 12" "currentPage_of dot_query = Num 1"
  "page_of flat_query = Some 1" "limit_of flat_query = Some 12"
  "currentPage_of flat_query = Num 1"
  by (simp_all add: page_of_def limit_of_def currentPage_of_def no_query_def dot_query_def
        flat_query_def)



lemma sort_docs0: "sort_docs env0 k direction ds = ds"
  by (simp add: env0_def)

lemma not_rejected0: "\<not> rejected env0 c"
  by (simp add: rejected_def env0_def)

lemma paging_integers:
  "page_of q = Some page \<Longrightarrow> limit_of q = Some limit \<Longrightarrow>
   paging E q = (if (page - 1) * limit < 0 then None
                 else Some (nat ((page - 1) * limit), limit))"
  by (simp add: paging_def)

lemma paging_first: "paging E no_query = Some (0, 12)" "paging E dot_query = Some (0, 12)"
  "paging E flat_query = Some (0, 12)"
  by (simp_all add: paging_integers query_defaults)

lemma found_dot: "find_properties env0 db0 dot_query = [populate_owner (users db0) flat0]"
  by (simp add: find_properties_def found_listed sort_docs0 paging_first limit_docs_def)
    (simp add: db0_def dot_query_listed)

lemma found_flat: "find_properties env0 db0 flat_query = [populate_owner (users db0) flat0]"
  by (simp add: find_properties_def found_listed sort_docs0 paging_first limit_docs_def)
    (simp add: db0_def flat0_listed shop0_not_listed)

lemma count_dot: "countDocuments env0 db0 dot_query = 1"
  by (simp add: countDocuments_def found_listed) (simp add: db0_def dot_query_listed)
















section \<open>The claims\<close>

subsection \<open>GET /api/properties/:id\<close>

text \<open>
  C1 (as amended). When the lookup itself does not fail, a request for an id that no
  property has and a request for a property that is not both approved and active leave
  the store as it is and are both answered with status 404 and no data; the message is
  \<open>Property not found\<close> in the first case and \<open>Property not available\<close> in the second.
\<close>

theorem getProperty_not_found:
  assumes "\<not> rejected E (FindById Properties pid)"
  shows "(findById (properties s) pid = None \<longrightarrow>
            getProperty E s pid = (s, failed 404 ''Property not found''))
       \<and> (\<forall>p. findById (properties s) pid = Some p
              \<and> \<not> (truthy (map_of p ''isApproved'') \<and> truthy (map_of p ''isActive'')) \<longrightarrow>
            getProperty E s pid = (s, failed 404 ''Property not available''))"
  using assms by (auto simp: getProperty_def)

theorem getProperty_not_found_witness:
  "getProperty env0 db0 ''p9'' = (db0, failed 404 ''Property not found'')
   \<and> getProperty env0 db0 ''p2'' = (db0, failed 404 ''Property not available'')"
proof -
  have a: "\<not> rejected env0 (FindById Properties i)" for i
    by (simp add: rejected_def env0_def)
  have b: "findById (properties db0) ''p9'' = None"
    by (simp add: findById_def db0_def flat0_def shop0_def)
  have c: "findById (properties db0) ''p2'' = Some shop0"
    by (simp add: findById_def db0_def flat0_def shop0_def)
  have d: "\<not> (truthy (map_of shop0 ''isApproved'') \<and> truthy (map_of shop0 ''isActive''))"
    by (simp add: shop0_def)
  from getProperty_not_found[OF a, of db0 "''p9''"] getProperty_not_found[OF a, of db0 "''p2''"] b c d
  show ?thesis by blast
qed

text \<open>
  C1 as stated fails: for the stored but unapproved property \<open>p2\<close> and the unknown id
  \<open>p9\<close> the two 404 responses carry different messages.
\<close>

theorem getProperty_messages_differ:
  "snd (getProperty env0 db0 ''p9'') = failed 404 ''Property not found''
   \<and> snd (getProperty env0 db0 ''p2'') = failed 404 ''Property not available''
   \<and> message (snd (getProperty env0 db0 ''p2'')) \<noteq> message (snd (getProperty env0 db0 ''p9''))"
proof -
  have a: "\<not> rejected env0 (FindById Properties i)" for i
    by (simp add: rejected_def env0_def)
  have b: "findById (properties db0) ''p9'' = None"
    by (simp add: findById_def db0_def flat0_def shop0_def)
  have c: "findById (properties db0) ''p2'' = Some shop0"
    by (simp add: findById_def db0_def flat0_def shop0_def)
  have d: "\<not> truthy (map_of shop0 ''isApproved'')"
    by (simp add: shop0_def)
  have 1: "getProperty env0 db0 ''p9'' = (db0, failed 404 ''Property not found'')"
    by (simp add: getProperty_def a b)
  have 2: "getProperty env0 db0 ''p2'' = (db0, failed 404 ''Property not available'')"
    by (simp add: getProperty_def a c d)
  show ?thesis by (simp add: 1 2 failed_def)
qed

text \<open>
  C7 (as amended). A successful fetch of a property whose view counter is below \<open>2^53\<close> in
  magnitude replaces the stored document by the same document with the counter one
  higher: every other field of it and every other document are as before. The response
  carries that document with its owner projected: every field but \<open>owner\<close> is the stored
  one, and \<open>owner\<close> is the \<open>_id\<close>, \<open>name\<close>, \<open>email\<close> and \<open>phone\<close> of the user the stored
  reference names (\<open>null\<close> when no user has that id). A second successful fetch adds one
  more, as long as the counter stays below \<open>2^53\<close>.
\<close>

theorem getProperty_counts_view:
  assumes "getProperty E s pid = (s1, r1)" and "status r1 = 200"
    and "findById (properties s) pid = Some p" and "\<bar>view_count p\<bar> < 2 ^ 53"
  shows "\<exists>p' doc.
           p' = AList.update ''views'' (JNum (view_count p + 1)) p
         \<and> s1 = s\<lparr>properties := replace_doc (Some (JStr pid)) p' (properties s)\<rparr>
         \<and> findById (properties s1) pid = Some p'
         \<and> (\<forall>j. j \<noteq> pid \<longrightarrow> findById (properties s1) j = findById (properties s) j)
         \<and> (\<forall>k. k \<noteq> ''views'' \<longrightarrow> map_of p' k = map_of p k)
         \<and> stored_views s pid = Some (view_count p)
         \<and> stored_views s1 pid = Some (view_count p + 1)
         \<and> r1 = succeeded 200 None (JObj [(''property'', JObj doc)])
         \<and> (\<forall>k. k \<noteq> ''owner'' \<longrightarrow> map_of doc k = map_of p' k)
         \<and> (map_of p ''owner'' = None \<longrightarrow> map_of doc ''owner'' = None)
         \<and> (\<forall>r. map_of p ''owner'' = Some r \<longrightarrow>
               map_of doc ''owner''
                 = Some (case find (\<lambda>u. map_of u ''_id'' = Some r) (users s) of
                           None \<Rightarrow> JNull
                         | Some u \<Rightarrow>
                             JObj (filter (\<lambda>(k, v). k \<in> {''_id'', ''name'', ''email'', ''phone''})
                                     u)))
         \<and> (\<forall>s2 r2. getProperty E s1 pid = (s2, r2) \<and> status r2 = 200
                      \<and> view_count p + 1 < 2 ^ 53 \<longrightarrow>
               stored_views s2 pid = Some (view_count p + 2))"
proof -
  let ?p' = "AList.update ''views'' (JNum (view_count p + 1)) p"
  let ?doc = "populate_owner (users s) ?p'"
  note first = getProperty_step[OF assms]
  have frame: "\<forall>k. k \<noteq> ''views'' \<longrightarrow> map_of ?p' k = map_of p k"
    by (simp add: update_conv')
  have other: "\<forall>k. k \<noteq> ''owner'' \<longrightarrow> map_of ?doc k = map_of ?p' k"
    by (simp add: populate_other)
  have o: "map_of ?p' ''owner'' = map_of p ''owner''"
    by (simp add: update_conv')
  have none: "map_of p ''owner'' = None \<longrightarrow> map_of ?doc ''owner'' = None"
    using o by (auto simp: populate_no_owner)
  have some: "\<forall>r. map_of p ''owner'' = Some r \<longrightarrow>
               map_of ?doc ''owner''
                 = Some (case find (\<lambda>u. map_of u ''_id'' = Some r) (users s) of
                           None \<Rightarrow> JNull
                         | Some u \<Rightarrow>
                             JObj (filter (\<lambda>(k, v). k \<in> {''_id'', ''name'', ''email'', ''phone''})
                                     u))"
    using o by (auto intro: populate_owner_field)
  have second: "stored_views s2 pid = Some (view_count p + 2)"
    if "getProperty E s1 pid = (s2, r2) \<and> status r2 = 200 \<and> view_count p + 1 < 2 ^ 53"
    for s2 r2
  proof -
    have vc: "view_count ?p' = view_count p + 1"
      by (simp add: view_count_def update_conv')
    from assms(4) have "- (2 ^ 53) < view_count p" by (simp add: abs_less_iff)
    with that have b: "\<bar>view_count ?p'\<bar> < 2 ^ 53"
      unfolding vc by (simp add: abs_less_iff)
    from that have g: "getProperty E s1 pid = (s2, r2)" and st: "status r2 = 200" by blast+
    from getProperty_step(6)[OF g st first(3) b] show ?thesis
      unfolding vc by simp
  qed
  have second': "\<forall>s2 r2. getProperty E s1 pid = (s2, r2) \<and> status r2 = 200
                      \<and> view_count p + 1 < 2 ^ 53 \<longrightarrow>
               stored_views s2 pid = Some (view_count p + 2)"
    using second by blast
  have "?p' = AList.update ''views'' (JNum (view_count p + 1)) p
         \<and> s1 = s\<lparr>properties := replace_doc (Some (JStr pid)) ?p' (properties s)\<rparr>
         \<and> findById (properties s1) pid = Some ?p'
         \<and> (\<forall>j. j \<noteq> pid \<longrightarrow> findById (properties s1) j = findById (properties s) j)
         \<and> (\<forall>k. k \<noteq> ''views'' \<longrightarrow> map_of ?p' k = map_of p k)
         \<and> stored_views s pid = Some (view_count p)
         \<and> stored_views s1 pid = Some (view_count p + 1)
         \<and> r1 = succeeded 200 None (JObj [(''property'', JObj ?doc)])
         \<and> (\<forall>k. k \<noteq> ''owner'' \<longrightarrow> map_of ?doc k = map_of ?p' k)
         \<and> (map_of p ''owner'' = None \<longrightarrow> map_of ?doc ''owner'' = None)
         \<and> (\<forall>r. map_of p ''owner'' = Some r \<longrightarrow>
               map_of ?doc ''owner''
                 = Some (case find (\<lambda>u. map_of u ''_id'' = Some r) (users s) of
                           None \<Rightarrow> JNull
                         | Some u \<Rightarrow>
                             JObj (filter (\<lambda>(k, v). k \<in> {''_id'', ''name'', ''email'', ''phone''})
                                     u)))
         \<and> (\<forall>s2 r2. getProperty E s1 pid = (s2, r2) \<and> status r2 = 200
                      \<and> view_count p + 1 < 2 ^ 53 \<longrightarrow>
               stored_views s2 pid = Some (view_count p + 2))"
    by (intro conjI) (fact refl first frame other none some second')+
  then show ?thesis by (intro exI)
qed

theorem getProperty_counts_view_witness:
  "stored_views db0 ''p1'' = Some 7
   \<and> stored_views (fst (getProperty env0 db0 ''p1'')) ''p1'' = Some 8
   \<and> stored_views (fst (getProperty env0 (fst (getProperty env0 db0 ''p1'')) ''p1'')) ''p1''
       = Some 9
   \<and> (\<exists>doc. snd (getProperty env0 db0 ''p1'')
               = succeeded 200 None (JObj [(''property'', JObj doc)])
          \<and> map_of doc ''owner''
              = Some (JObj [(''_id'', JStr ''u1''), (''name'', JStr ''Super Admin''),
                            (''phone'', JStr ''2222222222'')])
          \<and> map_of doc ''views'' = Some (JNum 8)
          \<and> map_of doc ''price'' = Some (JNum 5000000))
   \<and> (\<exists>p. findById (properties (fst (getProperty env0 db0 ''p1''))) ''p1'' = Some p
          \<and> map_of p ''price'' = Some (JNum 5000000)
          \<and> map_of p ''owner'' = Some (JStr ''u1''))"
proof -
  let ?s1 = "fst (getProperty env0 db0 ''p1'')" and ?r1 = "snd (getProperty env0 db0 ''p1'')"
  let ?s2 = "fst (getProperty env0 ?s1 ''p1'')" and ?r2 = "snd (getProperty env0 ?s1 ''p1'')"
  have rd: "round_double 8 = 8" "round_double 9 = 9"
    by (rule round_double_exact, simp)+
  have a: "getProperty env0 db0 ''p1'' = (?s1, ?r1)" by simp
  have b: "status ?r1 = 200"
    by (simp add: getProperty_def rejected_def env0_def findById_def db0_def flat0_def shop0_def
          succeeded_def failed_def Let_def)
  have c: "getProperty env0 ?s1 ''p1'' = (?s2, ?r2)" by simp
  have d: "status ?r2 = 200"
    by (simp add: getProperty_def rejected_def env0_def findById_def db0_def flat0_def shop0_def
          succeeded_def failed_def Let_def rd)
  have e: "findById (properties db0) ''p1'' = Some flat0"
    by (simp add: findById_def db0_def flat0_def)
  have f: "view_count flat0 = 7" "map_of flat0 ''price'' = Some (JNum 5000000)"
    "map_of flat0 ''owner'' = Some (JStr ''u1'')"
    by (simp_all add: view_count_def flat0_def)
  have g: "\<bar>view_count flat0\<bar> < 2 ^ 53" by (simp add: f)
  have u: "find (\<lambda>u. map_of u ''_id'' = Some (JStr ''u1'')) (users db0) = Some admin0"
    by (simp add: db0_def admin0_def)
  from getProperty_counts_view[OF a b e g] obtain p' doc where
    p': "findById (properties ?s1) ''p1'' = Some p'"
    and fr: "\<forall>k. k \<noteq> ''views'' \<longrightarrow> map_of p' k = map_of flat0 k"
    and pv: "p' = AList.update ''views'' (JNum (view_count flat0 + 1)) flat0"
    and v0: "stored_views db0 ''p1'' = Some (view_count flat0)"
    and v1: "stored_views ?s1 ''p1'' = Some (view_count flat0 + 1)"
    and r: "?r1 = succeeded 200 None (JObj [(''property'', JObj doc)])"
    and dk: "\<forall>k. k \<noteq> ''owner'' \<longrightarrow> map_of doc k = map_of p' k"
    and dow: "\<forall>r. map_of flat0 ''owner'' = Some r \<longrightarrow>
               map_of doc ''owner''
                 = Some (case find (\<lambda>u. map_of u ''_id'' = Some r) (users db0) of
                           None \<Rightarrow> JNull
                         | Some u \<Rightarrow>
                             JObj (filter (\<lambda>(k, v). k \<in> {''_id'', ''name'', ''email'', ''phone''})
                                     u))"
    and v2: "\<forall>s2 r2. getProperty env0 ?s1 ''p1'' = (s2, r2) \<and> status r2 = 200
                      \<and> view_count flat0 + 1 < 2 ^ 53 \<longrightarrow>
                  stored_views s2 ''p1'' = Some (view_count flat0 + 2)"
    by blast
  have lt: "view_count flat0 + 1 < 2 ^ 53" by (simp add: f(1))
  have third: "stored_views ?s2 ''p1'' = Some (view_count flat0 + 2)"
    using v2 c d lt by blast
  have owner: "map_of doc ''owner''
              = Some (JObj [(''_id'', JStr ''u1''), (''name'', JStr ''Super Admin''),
                            (''phone'', JStr ''2222222222'')])"
    using dow f(3) by (simp add: u) (simp add: admin0_def)
  have views: "map_of doc ''views'' = Some (JNum 8)"
    using dk by (simp add: pv update_conv' f)
  have price: "map_of doc ''price'' = Some (JNum 5000000)" "map_of p' ''price'' = Some (JNum 5000000)"
    "map_of p' ''owner'' = Some (JStr ''u1'')"
    using dk fr f by simp_all
  have counts: "stored_views db0 ''p1'' = Some 7" "stored_views ?s1 ''p1'' = Some 8"
    "stored_views ?s2 ''p1'' = Some 9"
    using v0 v1 third by (simp_all add: f(1))
  show ?thesis
    using counts r owner views price p' by blast
qed



text \<open>
  C7 as stated fails: a fetch of the listing that has been viewed \<open>2^53\<close> times succeeds
  and leaves the stored counter where it was, because \<open>2^53 + 1\<close> is not a double and the
  sum is rounded back to \<open>2^53\<close>.
\<close>

theorem getProperty_counter_stalls:
  "status (snd (getProperty env0 db_busy ''p3'')) = 200
   \<and> stored_views db_busy ''p3'' = Some 9007199254740992
   \<and> stored_views (fst (getProperty env0 db_busy ''p3'')) ''p3'' = Some 9007199254740992"
proof -
  have rd: "round_double 9007199254740993 = 9007199254740992"
    by (simp add: round_double_def Let_def shifts.simps)
  have f: "findById (properties db_busy) ''p3'' = Some busy0"
    by (simp add: findById_def db_busy_def busy0_def)
  have g: "getProperty env0 db_busy ''p3''
             = (db_busy\<lparr>properties := [busy0]\<rparr>,
                succeeded 200 None (JObj [(''property'', JObj (populate_owner (users db_busy) busy0))]))"
  proof -
    have a: "truthy (map_of busy0 ''isApproved'')" "truthy (map_of busy0 ''isActive'')"
      by (simp_all add: busy0_def)
    have b: "plus_one (map_of busy0 ''views'') = Some (JNum 9007199254740992)"
      by (simp add: busy0_def rd)
    have c: "AList.update ''views'' (JNum 9007199254740992) busy0 = busy0"
      by (simp add: busy0_def)
    have d: "replace_doc (Some (JStr ''p3'')) busy0 (properties db_busy) = [busy0]"
      by (simp add: db_busy_def busy0_def)
    show ?thesis
      by (simp add: getProperty_def f a b c d not_rejected0 Let_def)
  qed
  show ?thesis
    by (simp add: g status_succeeded stored_views_def f)
      (simp add: findById_def busy0_def view_count_def)
qed

subsection \<open>POST /api/auth/login, POST /api/auth/admin/login, the user in a response\<close>

text \<open>
  C8 (as amended). When the lookup itself does not fail, a login with a phone that no user
  has and a login with the phone of an active user and a password that does not verify
  leave the store as it is and get the same response, 401 with
  \<open>Invalid phone number or password\<close>; a login against a user whose \<open>isActive\<close> is false gets
  401 with the deactivation message, a different response, whatever the password (with
  the correct one and with a wrong one).
\<close>

theorem login_failure_messages:
  assumes "\<not> rejected E (FindOne Users ''phone'' (JStr phone))"
  shows "(findOne (users s) ''phone'' (JStr phone) = None \<longrightarrow>
            login E s phone password = (s, failed 401 ''Invalid phone number or password''))
       \<and> (\<forall>user. findOne (users s) ''phone'' (JStr phone) = Some user
              \<and> truthy (map_of user ''isActive'') \<and> \<not> compare_password E password user \<longrightarrow>
            login E s phone password = (s, failed 401 ''Invalid phone number or password''))
       \<and> (\<forall>user. findOne (users s) ''phone'' (JStr phone) = Some user
              \<and> \<not> truthy (map_of user ''isActive'') \<longrightarrow>
            login E s phone password =
              (s, failed 401 ''Account is deactivated. Please contact support.''))
       \<and> failed 401 ''Account is deactivated. Please contact support.''
           \<noteq> failed 401 ''Invalid phone number or password''"
  using login_cases[OF assms] by (auto simp: failed_def)

theorem login_failure_messages_witness:
  "login env0 db0 ''2222222222'' ''wrong'' = (db0, failed 401 ''Invalid phone number or password'')
   \<and> login env0 db0 ''9999999999'' ''wrong'' = (db0, failed 401 ''Invalid phone number or password'')
   \<and> compare_password env0 ''secret'' retired0
   \<and> login env0 db0 ''3333333333'' ''secret''
        = (db0, failed 401 ''Account is deactivated. Please contact support.'')"
proof -
  have a: "\<not> rejected env0 (FindOne Users ''phone'' (JStr i))" for i
    by (simp add: rejected_def env0_def)
  have f1: "findOne (users db0) ''phone'' (JStr ''2222222222'') = Some admin0"
    by (simp add: findOne_def db0_def admin0_def)
  have f2: "findOne (users db0) ''phone'' (JStr ''9999999999'') = None"
    by (simp add: findOne_def db0_def admin0_def retired0_def)
  have f3: "findOne (users db0) ''phone'' (JStr ''3333333333'') = Some retired0"
    by (simp add: findOne_def db0_def admin0_def retired0_def)
  have g1: "truthy (map_of admin0 ''isActive'')" "\<not> compare_password env0 ''wrong'' admin0"
    by (simp_all add: admin0_def env0_def)
  have g3: "\<not> truthy (map_of retired0 ''isActive'')" "compare_password env0 ''secret'' retired0"
    by (simp_all add: retired0_def env0_def)
  from login_failure_messages[OF a, of db0 "''2222222222''" "''wrong''"] f1 g1
  have 1: "login env0 db0 ''2222222222'' ''wrong'' = (db0, failed 401 ''Invalid phone number or password'')"
    by blast
  from login_failure_messages[OF a, of db0 "''9999999999''" "''wrong''"] f2
  have 2: "login env0 db0 ''9999999999'' ''wrong'' = (db0, failed 401 ''Invalid phone number or password'')"
    by blast
  from login_failure_messages[OF a, of db0 "''3333333333''" "''secret''"] f3 g3
  have 3: "login env0 db0 ''3333333333'' ''secret''
        = (db0, failed 401 ''Account is deactivated. Please contact support.'')"
    by blast
  show ?thesis using 1 2 3 g3 by simp
qed


text \<open>
  C8 as stated fails: a wrong password against the deactivated account \<open>3333333333\<close> gets
  the deactivation message, not the generic one that an unknown phone gets, because the
  handler checks \<open>isActive\<close> before the password.
\<close>

theorem login_deactivated_wrong_password:
  "\<not> compare_password env0 ''wrong'' retired0
   \<and> findOne (users db0) ''phone'' (JStr ''3333333333'') = Some retired0
   \<and> findOne (users db0) ''phone'' (JStr ''9999999999'') = None
   \<and> snd (login env0 db0 ''3333333333'' ''wrong'')
       = failed 401 ''Account is deactivated. Please contact support.''
   \<and> snd (login env0 db0 ''9999999999'' ''wrong'')
       = failed 401 ''Invalid phone number or password''
   \<and> snd (login env0 db0 ''3333333333'' ''wrong'') \<noteq> snd (login env0 db0 ''9999999999'' ''wrong'')"
proof -
  have f2: "findOne (users db0) ''phone'' (JStr ''9999999999'') = None"
    by (simp add: findOne_def db0_def admin0_def retired0_def)
  have f3: "findOne (users db0) ''phone'' (JStr ''3333333333'') = Some retired0"
    by (simp add: findOne_def db0_def admin0_def retired0_def)
  have g3: "\<not> truthy (map_of retired0 ''isActive'')" "\<not> compare_password env0 ''wrong'' retired0"
    by (simp_all add: retired0_def env0_def)
  have 1: "login env0 db0 ''3333333333'' ''wrong''
             = (db0, failed 401 ''Account is deactivated. Please contact support.'')"
    by (rule login_cases(2)[OF not_rejected0 f3 g3(1)])
  have 2: "login env0 db0 ''9999999999'' ''wrong''
             = (db0, failed 401 ''Invalid phone number or password'')"
    by (rule login_cases(1)[OF not_rejected0 f2])
  show ?thesis
    by (simp add: 1 2 f2 f3 g3 failed_def)
qed

text \<open>
  C2, at the input where the code departs from it. For a stored user with role admin whose
  \<open>isActive\<close> is false and whose password verifies, the login handler answers 401
  (deactivated), and the admin login handler, which has no \<open>isActive\<close> check, answers 200
  with a token whose payload holds the user id and the role.
\<close>

theorem adminLogin_skips_isActive:
  assumes "\<not> rejected E (FindOne Users ''phone'' (JStr phone))"
    and "findOne (users s) ''phone'' (JStr phone) = Some user"
    and "\<not> truthy (map_of user ''isActive'')"
    and "map_of user ''role'' = Some (JStr ''admin'')"
    and "compare_password E password user"
    and "\<not> rejected E (Save Users (AList.update ''lastLogin'' (JNum (now E)) user))"
  shows "snd (login E s phone password)
           = failed 401 ''Account is deactivated. Please contact support.''
       \<and> snd (adminLogin E s phone password)
           = succeeded 200 (Some ''Admin login successful!'')
               (JObj [(''user'', JObj (session_user (AList.update ''lastLogin'' (JNum (now E)) user))),
                      (''token'',
                       JStr (jwt_sign E (literal [(''userId'', map_of user ''_id''),
                                                  (''role'', Some (JStr ''admin''))])))])"
  using login_cases(2)[OF assms(1) assms(2) assms(3)]
    adminLogin_cases(4)[OF assms(1) assms(2) assms(4) assms(5) assms(6)]
  by simp

theorem adminLogin_skips_isActive_witness:
  "\<not> truthy (map_of retired0 ''isActive'')
   \<and> findOne (users db0) ''phone'' (JStr ''3333333333'') = Some retired0
   \<and> status (snd (login env0 db0 ''3333333333'' ''secret'')) = 401
   \<and> status (snd (adminLogin env0 db0 ''3333333333'' ''secret'')) = 200
   \<and> response_token (snd (adminLogin env0 db0 ''3333333333'' ''secret'')) = Some ''userIdrole''"
proof -
  have a: "\<not> rejected env0 c" for c
    by (simp add: rejected_def env0_def)
  have f3: "findOne (users db0) ''phone'' (JStr ''3333333333'') = Some retired0"
    by (simp add: findOne_def db0_def admin0_def retired0_def)
  have g3: "\<not> truthy (map_of retired0 ''isActive'')" "compare_password env0 ''secret'' retired0"
    "map_of retired0 ''role'' = Some (JStr ''admin'')"
    by (simp_all add: retired0_def env0_def)
  have t: "jwt_sign env0 (literal [(''userId'', map_of retired0 ''_id''), (''role'', Some (JStr ''admin''))])
             = ''userIdrole''"
    by (simp add: env0_def retired0_def)
  from adminLogin_skips_isActive[OF a f3 g3(1) g3(3) g3(2) a] f3 g3 t
  show ?thesis
    by (simp add: failed_def succeeded_def)
qed

text \<open>
  C3. No user object of a response holds the password field. Register, Login and
  AdminLogin build the object field by field without it, whatever the serialisation of
  the User schema; GetProfile loads the document without its password path, so its
  response has none for every serialisation that adds no field; UpdateProfile sends the
  whole document, so its response has none by the schema's serialisation, the public
  projection as the specification defines it.
\<close>

theorem responses_hide_password:
  "(\<forall>u. response_user (snd (register E s name email phone password)) = Some u \<longrightarrow>
        map_of u ''password'' = None)
   \<and> (\<forall>u. response_user (snd (login E s phone1 password1)) = Some u \<longrightarrow>
        map_of u ''password'' = None)
   \<and> (\<forall>u. response_user (snd (adminLogin E s phone2 password2)) = Some u \<longrightarrow>
        map_of u ''password'' = None)
   \<and> ((\<forall>d. fst ` set (user_toJSON E d) \<subseteq> fst ` set d) \<longrightarrow>
        (\<forall>u. response_user (getMe E s uid) = Some u \<longrightarrow> map_of u ''password'' = None))
   \<and> (user_toJSON E = public_projection \<longrightarrow>
        (\<forall>u. response_user (getMe E s uid) = Some u \<longrightarrow> map_of u ''password'' = None)
        \<and> (\<forall>u. response_user (snd (updateProfile E s uid body)) = Some u \<longrightarrow>
              map_of u ''password'' = None))"
proof (intro conjI allI impI)
  fix u assume "response_user (snd (register E s name email phone password)) = Some u"
  then show "map_of u ''password'' = None" by (rule register_hides_password)
next
  fix u assume "response_user (snd (login E s phone1 password1)) = Some u"
  then show "map_of u ''password'' = None" by (rule login_hides_password)
next
  fix u assume "response_user (snd (adminLogin E s phone2 password2)) = Some u"
  then show "map_of u ''password'' = None" by (rule adminLogin_hides_password)
next
  fix u assume "\<forall>d. fst ` set (user_toJSON E d) \<subseteq> fst ` set d"
    and "response_user (getMe E s uid) = Some u"
  then show "map_of u ''password'' = None" by (rule getMe_hides_password)
next
  fix u assume t: "user_toJSON E = public_projection"
    and r: "response_user (getMe E s uid) = Some u"
  from t have "\<forall>d. fst ` set (user_toJSON E d) \<subseteq> fst ` set d"
    by (simp add: public_projection_keys)
  from this r show "map_of u ''password'' = None" by (rule getMe_hides_password)
next
  fix u assume "user_toJSON E = public_projection"
    and "response_user (snd (updateProfile E s uid body)) = Some u"
  then show "map_of u ''password'' = None" by (rule updateProfile_hides_password)
qed

theorem responses_hide_password_witness:
  "map_of admin0 ''password'' = Some (JStr ''hash:smitaa'')
   \<and> map_option (\<lambda>u. map_of u ''password'')
         (response_user (snd (register env0 db0 ''Asha'' None ''4444444444'' ''pw''))) = Some None
   \<and> map_option (\<lambda>u. map_of u ''password'')
         (response_user (snd (login env0 db0 ''2222222222'' ''smitaa''))) = Some None
   \<and> map_option (\<lambda>u. map_of u ''password'')
         (response_user (snd (adminLogin env0 db0 ''2222222222'' ''smitaa''))) = Some None
   \<and> map_option (\<lambda>u. map_of u ''password'') (response_user (getMe env0 db0 ''u1'')) = Some None
   \<and> map_option (\<lambda>u. map_of u ''password'')
         (response_user (snd (updateProfile env0 db0 ''u1'' [(''name'', JStr ''Asha'')])))
       = Some None
   \<and> map_option (\<lambda>u. map_of u ''name'')
         (response_user (snd (updateProfile env0 db0 ''u1'' [(''name'', JStr ''Asha'')])))
       = Some (Some (JStr ''Asha''))"
proof -
  note w = responses_hide_password[where E = env0 and s = db0 and name = "''Asha''"
      and email = None and phone = "''4444444444''" and password = "''pw''"
      and ?phone1.0 = "''2222222222''" and ?password1.0 = "''smitaa''"
      and ?phone2.0 = "''2222222222''" and ?password2.0 = "''smitaa''"
      and uid = "''u1''" and body = "[(''name'', JStr ''Asha'')]"]
  have tj: "user_toJSON env0 = public_projection" by (simp add: env0_def)
  have f: "findById (users db0) ''u1'' = Some admin0"
    by (simp add: findById_def db0_def admin0_def)
  have fo: "findOne (users db0) ''phone'' (JStr ''2222222222'') = Some admin0"
    "findOne (users db0) ''phone'' (JStr ''4444444444'') = None"
    by (simp_all add: findOne_def db0_def admin0_def retired0_def)
  have cp: "compare_password env0 ''smitaa'' admin0" "truthy (map_of admin0 ''isActive'')"
    "map_of admin0 ''role'' = Some (JStr ''admin'')"
    by (simp_all add: env0_def admin0_def)
  have h: "map_of admin0 ''password'' = Some (JStr ''hash:smitaa'')"
    by (simp add: admin0_def)
  have fl: "failure env0 c = None" for c by (simp add: env0_def)
  have nid: "map_of (new_user env0 db0 ''Asha'' None ''4444444444'' ''pw'') ''_id''
               = Some (JStr ''nnn'')"
    by (simp add: new_user_def map_of_new_document) (simp add: env0_def db0_def)
  have fresh: "\<not> list_ex (\<lambda>u. map_of u ''_id'' = Some (JStr ''nnn'')) (users db0)"
    by (simp add: db0_def admin0_def retired0_def)
  have reg: "response_user (snd (register env0 db0 ''Asha'' None ''4444444444'' ''pw'')) \<noteq> None"
    by (simp add: register_def fo not_rejected0 truthy_str_def register_save_def
          register_saved_def succeeded_def fl nid fresh)
  have lg: "response_user (snd (login env0 db0 ''2222222222'' ''smitaa'')) \<noteq> None"
    by (simp add: login_def fo cp not_rejected0 Let_def succeeded_def)
  have al: "response_user (snd (adminLogin env0 db0 ''2222222222'' ''smitaa'')) \<noteq> None"
    by (simp add: adminLogin_def fo cp not_rejected0 Let_def succeeded_def)
  have me: "response_user (getMe env0 db0 ''u1'') \<noteq> None"
    by (simp add: getMe_def f not_rejected0 succeeded_def)
  have up: "response_user (snd (updateProfile env0 db0 ''u1'' [(''name'', JStr ''Asha'')]))
              = Some (public_projection (set_profile [(''name'', JStr ''Asha'')] admin0))"
    by (simp add: updateProfile_def f not_rejected0 Let_def succeeded_def tj)
  have nm: "map_of (public_projection (set_profile [(''name'', JStr ''Asha'')] admin0)) ''name''
              = Some (JStr ''Asha'')"
    by (simp add: public_projection_def set_profile_def admin0_def)
  from w tj reg lg al me up nm h show ?thesis
    by (auto simp del: response_user.simps)
qed


subsection \<open>POST /api/properties and PUT /api/properties/:id\<close>

text \<open>
  C6. Whatever the payload, a creation either leaves the store as it is or appends one
  document whose \<open>isApproved\<close> and \<open>isActive\<close> are \<open>true\<close> (and a 201 response means it
  appended one); a successful update stores, in the place of the document, the document
  with every property of the payload set on it (the last one of a repeated key) and then
  \<open>isApproved\<close> set to \<open>true\<close>.
\<close>

theorem admin_writes_approve:
  "(fst (createProperty E s uid body) = s
     \<or> (\<exists>p. fst (createProperty E s uid body) = s\<lparr>properties := properties s @ [p]\<rparr>
           \<and> map_of p ''isApproved'' = Some (JBool True)
           \<and> map_of p ''isActive'' = Some (JBool True)))
   \<and> (status (fst (snd (createProperty E s uid body))) = 201 \<longrightarrow>
        fst (createProperty E s uid body) \<noteq> s)
   \<and> (status (snd (updateProperty E s pid body)) = 200 \<longrightarrow>
        (\<exists>p p'. findById (properties s) pid = Some p
           \<and> fst (updateProperty E s pid body)
               = s\<lparr>properties := replace_doc (Some (JStr pid)) p' (properties s)\<rparr>
           \<and> findById (properties (fst (updateProperty E s pid body))) pid = Some p'
           \<and> map_of p' ''isApproved'' = Some (JBool True)
           \<and> (\<forall>k. k \<noteq> ''isApproved'' \<longrightarrow>
                  map_of p' k = (case map_of (rev body) k of Some v \<Rightarrow> Some v
                                 | None \<Rightarrow> map_of p k))))"
proof (intro conjI impI)
  let ?p = "new_document (new_id E (properties s)) (property_defaults E) (propertyData uid body)"
  have "map_of ?p ''isApproved'' = Some (JBool True)" "map_of ?p ''isActive'' = Some (JBool True)"
    by (simp_all add: map_of_new_document propertyData_flags)
  with createProperty_store[of E s uid body]
  show "fst (createProperty E s uid body) = s
     \<or> (\<exists>p. fst (createProperty E s uid body) = s\<lparr>properties := properties s @ [p]\<rparr>
           \<and> map_of p ''isApproved'' = Some (JBool True)
           \<and> map_of p ''isActive'' = Some (JBool True))"
    by blast
next
  assume "status (fst (snd (createProperty E s uid body))) = 201"
  from createProperty_created[OF this]
  have "properties (fst (createProperty E s uid body)) \<noteq> properties s"
    by (simp add: Let_def)
  then show "fst (createProperty E s uid body) \<noteq> s" by auto
next
  assume "status (snd (updateProperty E s pid body)) = 200"
  from updateProperty_ok[OF this] obtain p where p: "findById (properties s) pid = Some p"
    and id: "map_of (AList.update ''isApproved'' (JBool True) (assign p body)) ''_id'' = Some (JStr pid)"
    and r: "updateProperty E s pid body =
               (s\<lparr>properties := replace_doc (Some (JStr pid))
                    (AList.update ''isApproved'' (JBool True) (assign p body)) (properties s)\<rparr>,
                succeeded 200 (Some ''Property updated successfully!'')
                  (JObj [(''property'', JObj (populate_owner (users s)
                     (AList.update ''isApproved'' (JBool True) (assign p body))))]))"
    by blast
  let ?p' = "AList.update ''isApproved'' (JBool True) (assign p body)"
  have a: "findById (properties (fst (updateProperty E s pid body))) pid = Some ?p'"
    using findById_replace_same[OF p id] by (simp add: r)
  have b: "map_of ?p' ''isApproved'' = Some (JBool True)"
    by (simp add: update_conv')
  have c: "\<forall>k. k \<noteq> ''isApproved'' \<longrightarrow>
             map_of ?p' k = (case map_of (rev body) k of Some v \<Rightarrow> Some v | None \<Rightarrow> map_of p k)"
    by (simp add: update_conv' map_of_assign)
  have d: "fst (updateProperty E s pid body)
               = s\<lparr>properties := replace_doc (Some (JStr pid)) ?p' (properties s)\<rparr>"
    by (simp add: r)
  show "\<exists>p p'. findById (properties s) pid = Some p
           \<and> fst (updateProperty E s pid body)
               = s\<lparr>properties := replace_doc (Some (JStr pid)) p' (properties s)\<rparr>
           \<and> findById (properties (fst (updateProperty E s pid body))) pid = Some p'
           \<and> map_of p' ''isApproved'' = Some (JBool True)
           \<and> (\<forall>k. k \<noteq> ''isApproved'' \<longrightarrow>
                  map_of p' k = (case map_of (rev body) k of Some v \<Rightarrow> Some v
                                 | None \<Rightarrow> map_of p k))"
    using p a b c d by blast
qed

theorem admin_writes_approve_witness:
  "map_of request0 ''isApproved'' = Some (JBool False)
   \<and> status (fst (snd (createProperty env0 db0 (JStr ''u1'') request0))) = 201
   \<and> (\<exists>p. fst (createProperty env0 db0 (JStr ''u1'') request0)
             = db0\<lparr>properties := properties db0 @ [p]\<rparr>
          \<and> map_of p ''isApproved'' = Some (JBool True)
          \<and> map_of p ''isActive'' = Some (JBool True))
   \<and> map_of change0 ''isApproved'' = Some (JBool False)
   \<and> status (snd (updateProperty env0 db0 ''p2'' change0)) = 200
   \<and> (\<exists>p'. findById (properties (fst (updateProperty env0 db0 ''p2'' change0))) ''p2'' = Some p'
          \<and> map_of p' ''isApproved'' = Some (JBool True)
          \<and> map_of p' ''price'' = Some (JNum 1)
          \<and> map_of p' ''location'' = Some (JStr ''Virar''))"
proof -
  note w = admin_writes_approve[of env0 db0 "JStr ''u1''" request0 "''p2''" ]
  have f: "findById (properties db0) ''p2'' = Some shop0"
    by (simp add: findById_def db0_def flat0_def shop0_def)
  have c: "\<exists>p. fst (createProperty env0 db0 (JStr ''u1'') request0)
             = db0\<lparr>properties := properties db0 @ [p]\<rparr>
          \<and> map_of p ''isApproved'' = Some (JBool True)
          \<and> map_of p ''isActive'' = Some (JBool True)"
    using w created0 by blast
  note w2 = admin_writes_approve[of env0 db0 "JStr ''u1''" change0 "''p2''"]
  from w2 updated0 f obtain p' where
    p': "findById (properties (fst (updateProperty env0 db0 ''p2'' change0))) ''p2'' = Some p'"
    and a: "map_of p' ''isApproved'' = Some (JBool True)"
    and k: "\<forall>k. k \<noteq> ''isApproved'' \<longrightarrow>
                  map_of p' k = (case map_of (rev change0) k of Some v \<Rightarrow> Some v
                                 | None \<Rightarrow> map_of shop0 k)"
    by auto
  have "map_of p' ''price'' = Some (JNum 1)" "map_of p' ''location'' = Some (JStr ''Virar'')"
    using k by (simp_all add: change0_def shop0_def)
  with p' a c created0 updated0 show ?thesis
    by (simp add: request0_def change0_def)
qed


text \<open>
  C9. When the store has accepted the new document and a mail of the creation fails, the
  response is still 201 with the created listing, the document stays in the store, and the
  failure is only written to the console; the store and the response do not depend on
  what the two mail functions do.
\<close>

theorem createProperty_absorbs_mail_failure:
  assumes "property = new_document (new_id E (properties s)) (property_defaults E)
                        (propertyData uid body)"
    and "\<not> rejected E (Save Properties property)"
    and "\<not> list_ex (\<lambda>d. map_of d ''_id'' = map_of property ''_id'') (properties s)"
    and "\<not> rejected E (Populate property)"
    and "\<not> mails_delivered E (populate_owner (users s) property)"
  shows "createProperty E s uid body =
           (s\<lparr>properties := properties s @ [property]\<rparr>,
            succeeded 201 (Some ''Property listed successfully and is now live on the website!'')
              (JObj [(''property'', JObj (populate_owner (users s) property))]),
            [''Email notification error:''])
       \<and> (\<forall>f g. fst (createProperty (E\<lparr>sendPropertyListedEmail := f, sendAdminNotification := g\<rparr>)
                        s uid body) = fst (createProperty E s uid body)
              \<and> fst (snd (createProperty (E\<lparr>sendPropertyListedEmail := f,
                        sendAdminNotification := g\<rparr>) s uid body))
                  = fst (snd (createProperty E s uid body)))"
  using assms by (simp add: createProperty_def Let_def rejected_def)

theorem createProperty_absorbs_mail_failure_witness:
  "\<not> mails_delivered env0
        (populate_owner (users db0) (new_document ''nnn'' [(''views'', JNum 0)]
           (propertyData (JStr ''u1'') request1)))
   \<and> fst (snd (createProperty env0 db0 (JStr ''u1'') request1))
       = succeeded 201 (Some ''Property listed successfully and is now live on the website!'')
           (JObj [(''property'', JObj (populate_owner (users db0)
              (new_document ''nnn'' [(''views'', JNum 0)] (propertyData (JStr ''u1'') request1))))])
   \<and> properties (fst (createProperty env0 db0 (JStr ''u1'') request1))
       = [flat0, shop0, new_document ''nnn'' [(''views'', JNum 0)] (propertyData (JStr ''u1'') request1)]
   \<and> snd (snd (createProperty env0 db0 (JStr ''u1'') request1)) = [''Email notification error:'']"
proof -
  let ?p = "new_document ''nnn'' [(''views'', JNum 0)] (propertyData (JStr ''u1'') request1)"
  have a: "?p = new_document (new_id env0 (properties db0)) (property_defaults env0)
                  (propertyData (JStr ''u1'') request1)"
    by (simp add: new_id0) (simp add: env0_def)
  have b: "\<not> rejected env0 c" for c
    by (simp add: rejected_def env0_def)
  have c: "\<not> list_ex (\<lambda>d. map_of d ''_id'' = map_of ?p ''_id'') (properties db0)"
    by (simp add: map_of_new_document propertyData_def request1_def update_conv')
      (simp add: db0_def flat0_def shop0_def)
  have d: "\<not> mails_delivered env0 (populate_owner (users db0) ?p)"
    by (simp add: mails_delivered_def env0_def)
  from createProperty_absorbs_mail_failure[OF a b c b d] d show ?thesis
    by (simp add: db0_def)
qed


text \<open>
  C10. A created property's stored \<open>images\<close> is an array of exactly one element: the
  payload's \<open>image\<close> when it is there and truthy, the placeholder URL otherwise; an
  \<open>images\<close> property of the payload has no influence on it.
\<close>

theorem createProperty_images:
  assumes "status (fst (snd (createProperty E s uid body))) = 201"
  shows "\<exists>p. fst (createProperty E s uid body) = s\<lparr>properties := properties s @ [p]\<rparr>
           \<and> map_of p ''images''
               = Some (JArr [case map_of body ''image'' of
                               None \<Rightarrow> JStr placeholder
                             | Some img \<Rightarrow> if truthy (Some img) then img
                                             else JStr placeholder])
           \<and> (\<forall>images. map_of (propertyData uid (AList.update ''images'' images body)) ''images''
                          = map_of p ''images'')"
proof -
  let ?p = "new_document (new_id E (properties s)) (property_defaults E) (propertyData uid body)"
  have s': "fst (createProperty E s uid body) = s\<lparr>properties := properties s @ [?p]\<rparr>"
    using createProperty_created[OF assms] by (simp add: Let_def)
  have i: "map_of ?p ''images'' = Some (JArr [or_else (map_of body ''image'') (JStr placeholder)])"
    by (simp add: map_of_new_document propertyData_flags)
  have o: "or_else (map_of body ''image'') (JStr placeholder)
             = (case map_of body ''image'' of None \<Rightarrow> JStr placeholder
                | Some img \<Rightarrow> if truthy (Some img) then img else JStr placeholder)"
    by (cases "map_of body ''image''") simp_all
  have d: "\<forall>images. map_of (propertyData uid (AList.update ''images'' images body)) ''images''
                          = map_of ?p ''images''"
    by (simp add: i propertyData_flags update_conv')
  show ?thesis using s' i o d by auto
qed

theorem createProperty_images_witness:
  "map_of request0 ''images'' = Some (JArr [JStr ''a.jpg'', JStr ''b.jpg''])
   \<and> (\<exists>p. properties (fst (createProperty env0 db0 (JStr ''u1'') request0)) = [flat0, shop0, p]
          \<and> map_of p ''images'' = Some (JArr [JStr placeholder]))
   \<and> map_of request1 ''image'' = Some (JStr ''c.jpg'')
   \<and> (\<exists>p. properties (fst (createProperty env0 db0 (JStr ''u1'') request1)) = [flat0, shop0, p]
          \<and> map_of p ''images'' = Some (JArr [JStr ''c.jpg'']))"
proof -
  from createProperty_images[OF created0]
  have 0: "\<exists>p. properties (fst (createProperty env0 db0 (JStr ''u1'') request0)) = [flat0, shop0, p]
          \<and> map_of p ''images'' = Some (JArr [JStr placeholder])"
    by (auto simp: request0_def db0_def)
  from createProperty_images[OF created1]
  have 1: "\<exists>p. properties (fst (createProperty env0 db0 (JStr ''u1'') request1)) = [flat0, shop0, p]
          \<and> map_of p ''images'' = Some (JArr [JStr ''c.jpg''])"
    by (auto simp: request1_def db0_def)
  show ?thesis using 0 1 by (simp add: request0_def request1_def)
qed

subsection \<open>GET /api/properties\<close>

text \<open>
  C4 (as amended). The filter the handler builds holds of a document exactly when the
  document is approved and active and meets every condition the request sets, a parameter
  that is missing or empty (or \<open>all\<close>, for type and bhk) setting none: type, bhk and status
  are equal to the parameter, the price is a number at least \<open>parseInt(minPrice)\<close> and at
  most \<open>parseInt(maxPrice)\<close>, the full-text condition holds, and the location matches the
  parameter read as a case-insensitive regular expression. Every property of the result
  is a stored document that meets them (for a store whose sort returns documents it was
  given), with its owner populated, and the count is the number of stored documents that
  meet them. For a location made of printable characters none of which is a
  metacharacter, the regular expression is the case-insensitive substring test.
\<close>

theorem search_filters:
  assumes "\<forall>k direction ds. set (sort_docs E k direction ds) \<subseteq> set ds"
  shows "(\<forall>d. satisfies E (build_filter q) d = listed E q d)
       \<and> (\<forall>r \<in> set (find_properties E s q).
             \<exists>d \<in> set (properties s). r = populate_owner (users s) d \<and> listed E q d)
       \<and> countDocuments E s q = length (filter (listed E q) (properties s))
       \<and> (status (getProperties E s q) = 200 \<longrightarrow>
             data (getProperties E s q)
               = Some (JObj [(''properties'', JArr (map JObj (find_properties E s q))),
                             (''pagination'', JObj (pagination E q (countDocuments E s q)))]))
       \<and> (\<forall>l str. \<not> list_ex meta l \<and> list_all printable l \<and> list_all printable str \<longrightarrow>
             regex_i E l str = ci_substring l str)"
proof (intro conjI)
  show "\<forall>d. satisfies E (build_filter q) d = listed E q d"
    by (simp add: satisfies_listed)
  show "\<forall>r \<in> set (find_properties E s q).
          \<exists>d \<in> set (properties s). r = populate_owner (users s) d \<and> listed E q d"
  proof
    fix r assume "r \<in> set (find_properties E s q)"
    then obtain d skip limit where r: "r = populate_owner (users s) d"
      and d: "d \<in> set (limit_docs limit
         (drop skip
           (sort_docs E (sortBy_of q) (direction_of q)
             (filter (listed E q) (properties s)))))"
      by (auto simp: find_properties_def found_listed split: option.splits)
    from d have "d \<in> set (drop skip
           (sort_docs E (sortBy_of q) (direction_of q) (filter (listed E q) (properties s))))"
      by (auto simp: limit_docs_def split: if_splits dest: in_set_takeD)
    then have "d \<in> set (sort_docs E (sortBy_of q) (direction_of q) (filter (listed E q) (properties s)))"
      by (rule in_set_dropD)
    with assms have "d \<in> set (filter (listed E q) (properties s))" by blast
    with r show "\<exists>d \<in> set (properties s). r = populate_owner (users s) d \<and> listed E q d"
      by auto
  qed
  show "countDocuments E s q = length (filter (listed E q) (properties s))"
    by (simp add: countDocuments_def found_listed)
  show "status (getProperties E s q) = 200 \<longrightarrow>
             data (getProperties E s q)
               = Some (JObj [(''properties'', JArr (map JObj (find_properties E s q))),
                             (''pagination'', JObj (pagination E q (countDocuments E s q)))])"
    by (auto dest: getProperties_ok simp: succeeded_def)
  show "\<forall>l str. \<not> list_ex meta l \<and> list_all printable l \<and> list_all printable str \<longrightarrow>
             regex_i E l str = ci_substring l str"
    by (simp add: regex_literal)
qed

theorem search_filters_witness:
  "find_properties env0 db0 flat_query = [populate_owner (users db0) flat0]
   \<and> listed env0 flat_query flat0
   \<and> \<not> listed env0 flat_query shop0
   \<and> satisfies env0 (build_filter flat_query) flat0
   \<and> \<not> satisfies env0 (build_filter flat_query) shop0
   \<and> countDocuments env0 db0 flat_query = 1
   \<and> status (getProperties env0 db0 flat_query) = 200
   \<and> regex_i env0 ''vasai'' ''Vasai''
   \<and> ci_substring ''vasai'' ''Vasai''"
proof -
  have srt: "\<forall>k direction ds. set (sort_docs env0 k direction ds) \<subseteq> set ds"
    by (simp add: sort_docs0)
  note w = search_filters[OF srt, of flat_query db0]
  have st: "status (getProperties env0 db0 flat_query) = 200"
    by (simp add: getProperties_def not_rejected0 paging_first status_succeeded)
  have m: "\<not> list_ex meta ''vasai''" "list_all printable ''vasai''" "list_all printable ''Vasai''"
    by (simp_all add: meta_def printable_def)
  from w m have r: "regex_i env0 ''vasai'' ''Vasai'' = ci_substring ''vasai'' ''Vasai''"
    by blast
  from w have c: "countDocuments env0 db0 flat_query = length (filter (listed env0 flat_query) (properties db0))"
    by blast
  from w have s: "satisfies env0 (build_filter flat_query) flat0 = listed env0 flat_query flat0"
    "satisfies env0 (build_filter flat_query) shop0 = listed env0 flat_query shop0"
    by blast+
  have c1: "countDocuments env0 db0 flat_query = 1"
    unfolding c by (simp add: db0_def flat0_listed shop0_not_listed)
  show ?thesis
    using found_flat flat0_listed shop0_not_listed s c1 st r vasai_in_Vasai by simp
qed


text \<open>
  C4 as stated fails: the request \<open>location=.\<close> returns the listing whose location is
  \<open>Vasai\<close>, which does not contain a dot.
\<close>

theorem search_location_is_regex:
  "getProperties env0 db0 dot_query
     = succeeded 200 None
         (JObj [(''properties'', JArr [JObj (populate_owner (users db0) flat0)]),
                (''pagination'',
                 JObj [(''currentPage'', JNum 1), (''totalPages'', JNum 1),
                       (''totalProperties'', JNum 1), (''hasNext'', JBool False),
                       (''hasPrev'', JBool False)])])
   \<and> q_location dot_query = Some ''.''
   \<and> map_of flat0 ''location'' = Some (JStr ''Vasai'')
   \<and> \<not> ci_substring ''.'' ''Vasai''"
proof -
  have p: "pagination env0 dot_query 1
             = [(''currentPage'', JNum 1), (''totalPages'', JNum 1),
                (''totalProperties'', JNum 1), (''hasNext'', JBool False),
                (''hasPrev'', JBool False)]"
    by (simp add: pagination_def page_marks_def query_defaults ceil_div_def ceiling_eq_iff)
  have "getProperties env0 db0 dot_query
     = succeeded 200 None
         (JObj [(''properties'', JArr [JObj (populate_owner (users db0) flat0)]),
                (''pagination'', JObj (pagination env0 dot_query 1))])"
    by (simp add: getProperties_def not_rejected0 paging_first found_dot count_dot)
  then show ?thesis
    unfolding p using dot_not_in_Vasai by (simp add: dot_query_def no_query_def flat0_def)
qed





end
